theory Spec2Isabelle
  imports Complex_Main "HOL-Library.Multiset"
begin

chapter \<open>The task API: controllers, routes and the store they query\<close>

text \<open>
  The controllers of \<open>controllers/todoController.js\<close> and the validation chains and
  routes of \<open>routes/todos.js\<close>, as functions from the stored collection and a request
  to the new collection and the response. One request is handled at a time.
\<close>

section \<open>Data model\<close>

text \<open>
  Identifiers are kept in their string form (the hexadecimal rendering of an ObjectId).
  Timestamps are milliseconds since the epoch. A JavaScript \<open>Date\<close> is such an instant,
  or the value \<open>Invalid Date\<close> that \<open>new Date(s)\<close> gives for a string it cannot
  parse.
\<close>

type_synonym objectId = string
type_synonym userId = string

datatype date = Date int | InvalidDate

text \<open>
  Modelled from the spec: \<open>models/Todo.js\<close> is not among the sources. Section 3 of the
  spec gives the attributes of a task: identifier, title (required, at most 100
  characters), description (optional, at most 500 characters), completion flag
  (default false), priority in low, medium, high (default medium), optional due date,
  owning user, creation and update timestamps. A field of value \<open>None\<close> holds
  JavaScript's \<open>null\<close> or \<open>undefined\<close>; the schema's validators other than
  \<open>required\<close> pass such a field.
\<close>

record todo =
  todo_id :: objectId
  title :: "string option"
  description :: "string option"
  completed :: "bool option"
  priority :: "string option"
  dueDate :: "date option"
  user :: userId
  createdAt :: int
  updatedAt :: int

text \<open>
  Modelled from the spec: the validators of the schema in \<open>models/Todo.js\<close>, run by
  every \<open>save()\<close>: the title is required and has at most 100 characters, the
  description at most 500, the priority is one of the three levels, and a due date
  must be a date, which \<open>Invalid Date\<close> is not.
\<close>

definition validTodo :: "todo \<Rightarrow> bool" where
  "validTodo t \<longleftrightarrow>
     (case title t of None \<Rightarrow> False | Some s \<Rightarrow> s \<noteq> [] \<and> length s \<le> 100) \<and>
     (case description t of None \<Rightarrow> True | Some d \<Rightarrow> length d \<le> 500) \<and>
     (case priority t of None \<Rightarrow> True | Some p \<Rightarrow> p \<in> set [''low'', ''medium'', ''high'']) \<and>
     dueDate t \<noteq> Some InvalidDate"

text \<open>
  A key of a JSON request body is absent (\<open>undefined\<close> after destructuring), explicitly
  \<open>null\<close>, or carries a value of the type the schema expects. Values of other JSON
  types are not represented.
\<close>

datatype 'a field = Absent | Null | Val 'a

record reqBody =
  body_title :: "string field"
  body_description :: "string field"
  body_completed :: "bool field"
  body_priority :: "string field"
  body_dueDate :: "string field"

record verror =
  param :: string
  msg :: string

text \<open>
  A request as the handlers see it: the route parameter \<open>:id\<close>, the identity that the
  authentication middleware stored in \<open>req.user._id\<close>, the query string (each
  parameter missing or given once, as a string), the JSON body, and the errors that the
  validation middleware of the route recorded, which \<open>validationResult(req)\<close> reads.
\<close>

record request =
  params_id :: string
  req_user :: userId
  query_page :: "string option"
  query_limit :: "string option"
  query_completed :: "string option"
  query_priority :: "string option"
  body :: reqBody
  validationErrors :: "verror list"

datatype storeError = CastError | ValidationError | DuplicateKey | BadValue

datatype payload =
    NoData
  | TodoData todo
  | ListData (todos: "todo list") (total: int) (page: int) (limit: int) (pages: int)
  | Errors "verror list"
  | ErrorDetail storeError

record response =
  status :: nat
  success :: bool
  message :: string
  payload :: payload

text \<open>
  The library functions whose exact behaviour the handlers depend on but which are not
  fixed by the sources: the ISO 8601 recogniser of the validation library, the
  conversion of a string to an ObjectId done by the store on every query by \<open>_id\<close>,
  and the parser behind \<open>new Date(s)\<close>, which gives an instant or fails. The
  recogniser and the parser are independent: a string may pass the first and fail the
  second.
\<close>

record lib =
  isISO8601 :: "string \<Rightarrow> bool"
  castObjectId :: "string \<Rightarrow> objectId option"
  parseDate :: "string \<Rightarrow> int option"


section \<open>JavaScript's parseInt\<close>

text \<open>
  A string is a list of bytes, the UTF-8 encoding of the JavaScript string. The white
  space that \<open>parseInt\<close> skips is the white space and the line terminators of the
  language: six ASCII characters, and U+00A0, U+1680, U+2000 to U+200A, U+2028, U+2029,
  U+202F, U+205F, U+3000 and U+FEFF, which are two or three bytes each.
\<close>

text \<open>The number of bytes of the white space character at the head of a string, or 0.\<close>

definition whiteSpaceLength :: "string \<Rightarrow> nat" where
  "whiteSpaceLength s =
     (case map (of_char :: char \<Rightarrow> nat) (take 3 s) of
        [] \<Rightarrow> 0
      | a # r \<Rightarrow>
          if a \<in> set [9, 10, 11, 12, 13, 32] then 1
          else (case r of
                  [] \<Rightarrow> 0
                | b # r' \<Rightarrow>
                    if a = 194 \<and> b = 160 then 2
                    else (case r' of
                            [] \<Rightarrow> 0
                          | c # _ \<Rightarrow>
                              if (a = 225 \<and> b = 154 \<and> c = 128) \<or>
                                 (a = 226 \<and> b = 128 \<and> (128 \<le> c \<and> c \<le> 138)) \<or>
                                 (a = 226 \<and> b = 128 \<and> c \<in> set [168, 169, 175]) \<or>
                                 (a = 226 \<and> b = 129 \<and> c = 159) \<or>
                                 (a = 227 \<and> b = 128 \<and> c = 128) \<or>
                                 (a = 239 \<and> b = 187 \<and> c = 191)
                              then 3 else 0)))"

fun skipWhiteSpace :: "string \<Rightarrow> string" where
  "skipWhiteSpace [] = []"
| "skipWhiteSpace (c # cs) =
     (if whiteSpaceLength (c # cs) = 0 then c # cs
      else skipWhiteSpace (drop (whiteSpaceLength (c # cs) - 1) cs))"

declare skipWhiteSpace.simps(2) [simp del]

definition digitVal :: "char \<Rightarrow> nat option" where
  "digitVal c =
     (let n = (of_char c :: nat) in
      if 48 \<le> n \<and> n \<le> 57 then Some (n - 48)
      else if 97 \<le> n \<and> n \<le> 122 then Some (n - 87)
      else if 65 \<le> n \<and> n \<le> 90 then Some (n - 55)
      else None)"

text \<open>
  The longest prefix of digits of the radix; \<open>None\<close> while no digit has been read.
\<close>

fun parseDigits :: "nat \<Rightarrow> string \<Rightarrow> nat option \<Rightarrow> nat option" where
  "parseDigits R [] acc = acc"
| "parseDigits R (c # cs) acc =
     (case digitVal c of
        None \<Rightarrow> acc
      | Some d \<Rightarrow>
          if d < R
          then parseDigits R cs (Some ((case acc of None \<Rightarrow> 0 | Some a \<Rightarrow> a) * R + d))
          else acc)"

text \<open>
  \<open>parseInt(s)\<close> with no radix: leading white space is skipped, a sign is read, a prefix
  \<open>0x\<close> or \<open>0X\<close> selects radix 16, and the result is \<open>NaN\<close> (\<open>None\<close>) when no digit
  follows. The result is the integer that the digits denote. JavaScript's numbers are
  these integers up to \<open>2 ^ 53\<close> in absolute value; beyond that \<open>parseInt\<close> rounds to
  a double or gives \<open>Infinity\<close>, which is not represented here, so that statements
  that build a request from a number keep it within this bound.
\<close>

definition parseInt :: "string \<Rightarrow> int option" where
  "parseInt str =
     (let s = skipWhiteSpace str;
          neg = (case s of c # _ \<Rightarrow> c = CHR ''-'' | [] \<Rightarrow> False);
          s1 = (case s of c # r \<Rightarrow> if c = CHR ''-'' \<or> c = CHR ''+'' then r else s | [] \<Rightarrow> s);
          hex = (case s1 of a # b # _ \<Rightarrow> a = CHR ''0'' \<and> (b = CHR ''x'' \<or> b = CHR ''X'')
                 | _ \<Rightarrow> False);
          s2 = (if hex then drop 2 s1 else s1)
      in map_option (\<lambda>n. if neg then - int n else int n)
           (parseDigits (if hex then 16 else 10) s2 None))"

text \<open>\<open>parseInt(q) || d\<close> for a query parameter that may be missing.\<close>

definition parseIntOr :: "string option \<Rightarrow> int \<Rightarrow> int" where
  "parseIntOr q d =
     (case q of
        None \<Rightarrow> d
      | Some s \<Rightarrow> (case parseInt s of None \<Rightarrow> d | Some n \<Rightarrow> if n = 0 then d else n))"

text \<open>The decimal rendering of a natural number, to write query strings.\<close>

fun decimal :: "nat \<Rightarrow> string" where
  "decimal n =
     (if n < 10 then [char_of (48 + n)]
      else decimal (n div 10) @ [char_of (48 + n mod 10)])"

declare decimal.simps [simp del]


section \<open>The store\<close>

text \<open>
  The collection is the list of stored documents in insertion order. A query filter
  always carries the owner; \<open>completed\<close> and \<open>priority\<close> are optional.
\<close>

record todoFilter =
  filter_user :: userId
  filter_completed :: "bool option"
  filter_priority :: "string option"

definition matches :: "todoFilter \<Rightarrow> todo \<Rightarrow> bool" where
  "matches f t \<longleftrightarrow>
     user t = filter_user f \<and>
     (case filter_completed f of None \<Rightarrow> True | Some b \<Rightarrow> completed t = Some b) \<and>
     (case filter_priority f of None \<Rightarrow> True | Some p \<Rightarrow> priority t = Some p)"

text \<open>
  \<open>sort({createdAt: -1})\<close>. The only sort key is the creation time, which is not
  unique: the store returns the matching documents newest first, and the order among
  documents of equal creation time is its own choice, which it may make differently
  in each query. A query therefore takes the ordering \<open>srt\<close> that the store uses for
  it; what is known of \<open>srt\<close> is that it permutes its argument and puts it in
  descending order of \<open>createdAt\<close>.
\<close>

definition newestFirst :: "(todo list \<Rightarrow> todo list) \<Rightarrow> bool" where
  "newestFirst srt \<longleftrightarrow>
     (\<forall>ts. mset (srt ts) = mset ts \<and> sorted_wrt (\<lambda>a b. createdAt b \<le> createdAt a) (srt ts))"

text \<open>
  \<open>Todo.find(filter).sort(..).skip(skip).limit(limit)\<close>. The store refuses a negative
  skip, reads a negative limit as its absolute value and a limit of zero as no limit.
\<close>

definition find ::
  "(todo list \<Rightarrow> todo list) \<Rightarrow> todo list \<Rightarrow> todoFilter \<Rightarrow> int \<Rightarrow> int \<Rightarrow> storeError + todo list" where
  "find srt db f skp lmt =
     (if skp < 0 then Inl BadValue
      else
        let ordered = srt (filter (matches f) db);
            rest = drop (nat skp) ordered
        in Inr (if lmt = 0 then rest else take (nat \<bar>lmt\<bar>) rest))"

definition countDocuments :: "todo list \<Rightarrow> todoFilter \<Rightarrow> int" where
  "countDocuments db f = int (length (filter (matches f) db))"

text \<open>
  \<open>Todo.findOne({_id: id, user: u})\<close>: the string is cast to an ObjectId first, and a
  string that cannot be cast makes the query fail.
\<close>

definition findOne :: "lib \<Rightarrow> todo list \<Rightarrow> string \<Rightarrow> userId \<Rightarrow> storeError + todo option" where
  "findOne L db idstr u =
     (case castObjectId L idstr of
        None \<Rightarrow> Inl CastError
      | Some oid \<Rightarrow> Inr (List.find (\<lambda>t. todo_id t = oid \<and> user t = u) db))"

fun removeFirst :: "('a \<Rightarrow> bool) \<Rightarrow> 'a list \<Rightarrow> 'a list" where
  "removeFirst P [] = []"
| "removeFirst P (x # xs) = (if P x then xs else x # removeFirst P xs)"

text \<open>\<open>Todo.findOneAndDelete({_id: id, user: u})\<close>: the store without the document found.\<close>

definition findOneAndDelete ::
  "lib \<Rightarrow> todo list \<Rightarrow> string \<Rightarrow> userId \<Rightarrow> storeError + (todo list \<times> todo option)" where
  "findOneAndDelete L db idstr u =
     (case castObjectId L idstr of
        None \<Rightarrow> Inl CastError
      | Some oid \<Rightarrow>
          let P = (\<lambda>t. todo_id t = oid \<and> user t = u)
          in Inr (removeFirst P db, List.find P db))"

fun replaceFirst :: "('a \<Rightarrow> bool) \<Rightarrow> 'a \<Rightarrow> 'a list \<Rightarrow> 'a list" where
  "replaceFirst P y [] = []"
| "replaceFirst P y (x # xs) = (if P x then y # xs else x # replaceFirst P y xs)"

text \<open>
  \<open>todo.save()\<close> of a new document: the schema is validated, then the document is
  inserted; an identifier already in the collection is a duplicate key.
\<close>

definition saveNew :: "todo list \<Rightarrow> todo \<Rightarrow> storeError + todo list" where
  "saveNew db t =
     (if \<not> validTodo t then Inl ValidationError
      else if todo_id t \<in> set (map todo_id db) then Inl DuplicateKey
      else Inr (db @ [t]))"

text \<open>
  \<open>todo.save()\<close> of a document that was loaded: the schema is validated, then the stored
  document with the same \<open>_id\<close> is overwritten.
\<close>

definition saveExisting :: "todo list \<Rightarrow> todo \<Rightarrow> storeError + todo list" where
  "saveExisting db t =
     (if \<not> validTodo t then Inl ValidationError
      else Inr (replaceFirst (\<lambda>x. todo_id x = todo_id t) t db))"



section \<open>Validation middleware\<close>

text \<open>
  The validation library turns the value of a field into a string before a standard
  validator sees it: \<open>undefined\<close> and \<open>null\<close> become the empty string. A chain marked
  \<open>optional()\<close> is skipped only when the field is \<open>undefined\<close>.
\<close>

definition fieldString :: "string field \<Rightarrow> string" where
  "fieldString v = (case v of Val s \<Rightarrow> s | _ \<Rightarrow> [])"

definition boolString :: "bool field \<Rightarrow> string" where
  "boolString v = (case v of Val b \<Rightarrow> (if b then ''true'' else ''false'') | _ \<Rightarrow> [])"

definition isHexDigit :: "char \<Rightarrow> bool" where
  "isHexDigit c \<longleftrightarrow> (case digitVal c of None \<Rightarrow> False | Some d \<Rightarrow> d < 16)"

text \<open>The library's \<open>isHexadecimal\<close>: an optional prefix \<open>0x\<close> or \<open>0h\<close>, then hex digits.\<close>

definition isHexadecimal :: "string \<Rightarrow> bool" where
  "isHexadecimal s =
     (let r = (case s of
                 a # b # r' \<Rightarrow>
                   if a = CHR ''0'' \<and> b \<in> set [CHR ''x'', CHR ''X'', CHR ''h'', CHR ''H'']
                   then r' else s
               | _ \<Rightarrow> s)
      in r \<noteq> [] \<and> list_all isHexDigit r)"

definition isMongoId :: "string \<Rightarrow> bool" where
  "isMongoId s \<longleftrightarrow> isHexadecimal s \<and> length s = 24"

definition isBoolean :: "string \<Rightarrow> bool" where
  "isBoolean s \<longleftrightarrow> s \<in> set [''true'', ''false'', ''1'', ''0'']"

definition err :: "string \<Rightarrow> string \<Rightarrow> verror" where
  "err p m = \<lparr>param = p, msg = m\<rparr>"

definition priorityCheck :: "string field \<Rightarrow> verror list" where
  "priorityCheck v =
     (if v = Absent \<or> fieldString v \<in> set [''low'', ''medium'', ''high''] then []
      else [err ''priority'' ''Priority must be low, medium, or high''])"

definition dueDateCheck :: "lib \<Rightarrow> string field \<Rightarrow> verror list" where
  "dueDateCheck L v =
     (if v = Absent \<or> isISO8601 L (fieldString v) then []
      else [err ''dueDate'' ''Due date must be a valid date''])"

definition idCheck :: "string \<Rightarrow> verror list" where
  "idCheck i = (if isMongoId i then [] else [err ''id'' ''Invalid todo ID''])"

definition createTodoValidation :: "lib \<Rightarrow> request \<Rightarrow> verror list" where
  "createTodoValidation L req =
     (if fieldString (body_title (body req)) \<noteq> [] then []
      else [err ''title'' ''Title is required''])
     @ priorityCheck (body_priority (body req))
     @ dueDateCheck L (body_dueDate (body req))"

definition updateTodoValidation :: "lib \<Rightarrow> request \<Rightarrow> verror list" where
  "updateTodoValidation L req =
     idCheck (params_id req)
     @ (if body_completed (body req) = Absent \<or> isBoolean (boolString (body_completed (body req)))
        then [] else [err ''completed'' ''Completed must be a boolean value''])
     @ priorityCheck (body_priority (body req))
     @ dueDateCheck L (body_dueDate (body req))"

definition todoIdValidation :: "request \<Rightarrow> verror list" where
  "todoIdValidation req = idCheck (params_id req)"


section \<open>Controllers\<close>

definition reply :: "nat \<Rightarrow> string \<Rightarrow> payload \<Rightarrow> response" where
  "reply code m d = \<lparr>status = code, success = (code < 400), message = m, payload = d\<rparr>"

text \<open>\<open>Math.ceil(a / b)\<close> on integers, \<open>b\<close> not zero.\<close>

definition ceilDiv :: "int \<Rightarrow> int \<Rightarrow> int" where
  "ceilDiv a b = - ((- a) div b)"

definition listFilter :: "request \<Rightarrow> todoFilter" where
  "listFilter req =
     \<lparr>filter_user = req_user req,
      filter_completed = map_option (\<lambda>s. s = ''true'') (query_completed req),
      filter_priority =
        (case query_priority req of None \<Rightarrow> None | Some p \<Rightarrow> if p = [] then None else Some p)\<rparr>"

definition getAllTodos :: "(todo list \<Rightarrow> todo list) \<Rightarrow> todo list \<Rightarrow> request \<Rightarrow> response" where
  "getAllTodos srt db req =
     (let pg = parseIntOr (query_page req) 1;
          lmt = parseIntOr (query_limit req) 10;
          skp = (pg - 1) * lmt;
          f = listFilter req
      in case find srt db f skp lmt of
           Inl e \<Rightarrow> reply 500 ''Server error while fetching todos'' (ErrorDetail e)
         | Inr ts \<Rightarrow>
             let tot = countDocuments db f
             in reply 200 ''Todos retrieved successfully''
                  (ListData ts tot pg lmt (ceilDiv tot lmt)))"

definition getTodoById :: "lib \<Rightarrow> todo list \<Rightarrow> request \<Rightarrow> response" where
  "getTodoById L db req =
     (case findOne L db (params_id req) (req_user req) of
        Inl e \<Rightarrow> reply 500 ''Server error while fetching todo'' (ErrorDetail e)
      | Inr None \<Rightarrow> reply 404 ''Todo not found'' NoData
      | Inr (Some t) \<Rightarrow> reply 200 ''Todo retrieved successfully'' (TodoData t))"

definition fieldOption :: "'a field \<Rightarrow> 'a option" where
  "fieldOption v = (case v of Val x \<Rightarrow> Some x | _ \<Rightarrow> None)"

text \<open>\<open>new Date(s)\<close>: the instant that the string denotes, or \<open>Invalid Date\<close>.\<close>

definition newDate :: "lib \<Rightarrow> string \<Rightarrow> date" where
  "newDate L s = (case parseDate L s of None \<Rightarrow> InvalidDate | Some ms \<Rightarrow> Date ms)"

text \<open>\<open>dueDate ? new Date(dueDate) : (null or undefined)\<close>.\<close>

definition dueDateOf :: "lib \<Rightarrow> string field \<Rightarrow> date option" where
  "dueDateOf L v =
     (case v of Val s \<Rightarrow> if s = [] then None else Some (newDate L s) | _ \<Rightarrow> None)"

text \<open>
  The document that \<open>createTodo\<close> constructs. The identifier \<open>oid\<close> and the time
  \<open>now\<close> are what the store's driver generates for it; \<open>completed\<close> is not given by
  the handler and takes the default of the schema, which is false (section 3 of the
  spec; the schema file is not among the sources).
\<close>

definition newTodo :: "lib \<Rightarrow> objectId \<Rightarrow> int \<Rightarrow> request \<Rightarrow> todo" where
  "newTodo L oid now req =
     \<lparr>todo_id = oid,
      title = fieldOption (body_title (body req)),
      description = fieldOption (body_description (body req)),
      completed = Some False,
      priority = (case body_priority (body req) of
                    Val p \<Rightarrow> if p = [] then Some ''medium'' else Some p
                  | _ \<Rightarrow> Some ''medium''),
      dueDate = dueDateOf L (body_dueDate (body req)),
      user = req_user req, createdAt = now, updatedAt = now\<rparr>"

definition createTodo ::
  "lib \<Rightarrow> objectId \<Rightarrow> int \<Rightarrow> todo list \<Rightarrow> request \<Rightarrow> todo list \<times> response" where
  "createTodo L oid now db req =
     (if validationErrors req \<noteq> [] then
        (db, reply 400 ''Validation failed'' (Errors (validationErrors req)))
      else
        let t = newTodo L oid now req
        in case saveNew db t of
             Inl e \<Rightarrow> (db, reply 500 ''Server error while creating todo'' (ErrorDetail e))
           | Inr db' \<Rightarrow> (db', reply 201 ''Todo created successfully'' (TodoData t)))"

text \<open>The five conditional assignments of \<open>updateTodo\<close>, in the order of the source.\<close>

definition applyFields :: "lib \<Rightarrow> reqBody \<Rightarrow> todo \<Rightarrow> todo" where
  "applyFields L b t =
     (let t1 = (if body_title b \<noteq> Absent then t\<lparr>title := fieldOption (body_title b)\<rparr> else t);
          t2 = (if body_description b \<noteq> Absent
                then t1\<lparr>description := fieldOption (body_description b)\<rparr> else t1);
          t3 = (if body_completed b \<noteq> Absent
                then t2\<lparr>completed := fieldOption (body_completed b)\<rparr> else t2);
          t4 = (if body_priority b \<noteq> Absent
                then t3\<lparr>priority := fieldOption (body_priority b)\<rparr> else t3)
      in if body_dueDate b \<noteq> Absent then t4\<lparr>dueDate := dueDateOf L (body_dueDate b)\<rparr> else t4)"

text \<open>
  Modelled from the spec: the schema option that maintains the timestamps is in
  \<open>models/Todo.js\<close>, which is not among the sources. The update time is renewed when a
  save changes the document.
\<close>

definition touch :: "int \<Rightarrow> todo \<Rightarrow> todo \<Rightarrow> todo" where
  "touch now old new = (if new = old then new else new\<lparr>updatedAt := now\<rparr>)"

definition updateTodo ::
  "lib \<Rightarrow> int \<Rightarrow> todo list \<Rightarrow> request \<Rightarrow> todo list \<times> response" where
  "updateTodo L now db req =
     (if validationErrors req \<noteq> [] then
        (db, reply 400 ''Validation failed'' (Errors (validationErrors req)))
      else
        case findOne L db (params_id req) (req_user req) of
          Inl e \<Rightarrow> (db, reply 500 ''Server error while updating todo'' (ErrorDetail e))
        | Inr None \<Rightarrow> (db, reply 404 ''Todo not found'' NoData)
        | Inr (Some t) \<Rightarrow>
            (let t' = touch now t (applyFields L (body req) t)
             in (case saveExisting db t' of
                   Inl e \<Rightarrow> (db, reply 500 ''Server error while updating todo'' (ErrorDetail e))
                 | Inr db' \<Rightarrow> (db', reply 200 ''Todo updated successfully'' (TodoData t')))))"

definition deleteTodo :: "lib \<Rightarrow> todo list \<Rightarrow> request \<Rightarrow> todo list \<times> response" where
  "deleteTodo L db req =
     (case findOneAndDelete L db (params_id req) (req_user req) of
        Inl e \<Rightarrow> (db, reply 500 ''Server error while deleting todo'' (ErrorDetail e))
      | Inr (db', None) \<Rightarrow> (db', reply 404 ''Todo not found'' NoData)
      | Inr (db', Some t) \<Rightarrow> (db', reply 200 ''Todo deleted successfully'' NoData))"


section \<open>Routes\<close>

text \<open>
  Each route runs its validation chains, which record their errors on the request, and
  then the controller. Authentication has already put the caller into the request.
  The list route is given the ordering that the store uses for its query.
\<close>

definition validated :: "(request \<Rightarrow> verror list) \<Rightarrow> request \<Rightarrow> request" where
  "validated chain req = req\<lparr>validationErrors := chain req\<rparr>"

definition GET_todos :: "(todo list \<Rightarrow> todo list) \<Rightarrow> todo list \<Rightarrow> request \<Rightarrow> response" where
  "GET_todos srt db req = getAllTodos srt db req"

definition GET_todos_id :: "lib \<Rightarrow> todo list \<Rightarrow> request \<Rightarrow> response" where
  "GET_todos_id L db req = getTodoById L db (validated todoIdValidation req)"

definition POST_todos ::
  "lib \<Rightarrow> objectId \<Rightarrow> int \<Rightarrow> todo list \<Rightarrow> request \<Rightarrow> todo list \<times> response" where
  "POST_todos L oid now db req =
     createTodo L oid now db (validated (createTodoValidation L) req)"

definition PUT_todos_id ::
  "lib \<Rightarrow> int \<Rightarrow> todo list \<Rightarrow> request \<Rightarrow> todo list \<times> response" where
  "PUT_todos_id L now db req = updateTodo L now db (validated (updateTodoValidation L) req)"

definition DELETE_todos_id :: "lib \<Rightarrow> todo list \<Rightarrow> request \<Rightarrow> todo list \<times> response" where
  "DELETE_todos_id L db req = deleteTodo L db (validated todoIdValidation req)"


section \<open>Example data\<close>

text \<open>
  A recogniser of decimal digits, stand-ins for the library functions (the date parser
  knows two calendar dates), two orderings that the store may use, which differ on
  documents of equal creation time, and a small store with two owners.
\<close>

definition isDec :: "char \<Rightarrow> bool" where
  "isDec c \<longleftrightarrow> 48 \<le> (of_char c :: nat) \<and> (of_char c :: nat) \<le> 57"

definition exampleISO8601 :: "string \<Rightarrow> bool" where
  "exampleISO8601 s \<longleftrightarrow> length s = 10 \<and> list_all (\<lambda>c. isDec c \<or> c = CHR ''-'') s"

definition exampleCast :: "string \<Rightarrow> objectId option" where
  "exampleCast s = (if length s = 24 \<and> list_all isHexDigit s then Some s else None)"

definition exampleParseDate :: "string \<Rightarrow> int option" where
  "exampleParseDate s =
     map_of [(''2024-01-20'', 1705708800000), (''2024-12-31'', 1735603200000)] s"

definition exampleLib :: lib where
  "exampleLib = \<lparr>isISO8601 = exampleISO8601, castObjectId = exampleCast,
     parseDate = exampleParseDate\<rparr>"

text \<open>Ties in stored order, and ties in the reverse of the stored order.\<close>

definition newestFirstStable :: "todo list \<Rightarrow> todo list" where
  "newestFirstStable ts = sort_key (\<lambda>t. - createdAt t) ts"

definition newestFirstReversed :: "todo list \<Rightarrow> todo list" where
  "newestFirstReversed ts = rev (sort_key createdAt ts)"

definition emptyBody :: reqBody where
  "emptyBody = \<lparr>body_title = Absent, body_description = Absent, body_completed = Absent,
     body_priority = Absent, body_dueDate = Absent\<rparr>"

definition milk :: todo where
  "milk = \<lparr>todo_id = ''64b7f3a2c1d2e3f4a5b6c7d1'', title = Some ''buy milk'',
     description = None, completed = Some True, priority = Some ''medium'',
     dueDate = Some (Date 1705708800000), user = ''alice'', createdAt = 100, updatedAt = 100\<rparr>"

definition taxes :: todo where
  "taxes = \<lparr>todo_id = ''64b7f3a2c1d2e3f4a5b6c7d2'', title = Some ''file taxes'',
     description = Some ''before April'', completed = Some False, priority = Some ''high'',
     dueDate = None, user = ''bob'', createdAt = 200, updatedAt = 200\<rparr>"

definition walk :: todo where
  "walk = \<lparr>todo_id = ''64b7f3a2c1d2e3f4a5b6c7d3'', title = Some ''walk the dog'',
     description = None, completed = Some True, priority = Some ''low'',
     dueDate = None, user = ''alice'', createdAt = 300, updatedAt = 300\<rparr>"

definition exampleDb :: "todo list" where
  "exampleDb = [milk, taxes, walk]"

definition aliceReq :: request where
  "aliceReq = \<lparr>params_id = ''64b7f3a2c1d2e3f4a5b6c7d1'', req_user = ''alice'',
     query_page = None, query_limit = None, query_completed = None, query_priority = None,
     body = emptyBody, validationErrors = []\<rparr>"

definition bobCompletes :: request where
  "bobCompletes = \<lparr>params_id = ''64b7f3a2c1d2e3f4a5b6c7d2'', req_user = ''bob'',
     query_page = None, query_limit = None, query_completed = None, query_priority = None,
     body = emptyBody\<lparr>body_completed := Val True\<rparr>, validationErrors = []\<rparr>"

definition aliceClearsDueDate :: request where
  "aliceClearsDueDate = aliceReq\<lparr>body := emptyBody\<lparr>body_dueDate := Null\<rparr>\<rparr>"

definition aliceCreates :: request where
  "aliceCreates = aliceReq\<lparr>body := emptyBody\<lparr>body_title := Val ''water plants'',
     body_description := Val ''all of them'', body_dueDate := Val ''2024-12-31''\<rparr>\<rparr>"

definition plants :: todo where
  "plants = \<lparr>todo_id = ''64b7f3a2c1d2e3f4a5b6c7d4'', title = Some ''water plants'',
     description = Some ''all of them'', completed = Some False, priority = Some ''medium'',
     dueDate = Some (Date 1735603200000), user = ''alice'', createdAt = 400, updatedAt = 400\<rparr>"

definition twin :: todo where
  "twin = \<lparr>todo_id = ''64b7f3a2c1d2e3f4a5b6c7d5'', title = Some ''feed the cat'',
     description = None, completed = Some False, priority = Some ''medium'',
     dueDate = None, user = ''alice'', createdAt = 300, updatedAt = 300\<rparr>"


section \<open>Auxiliary facts\<close>

lemma of_char_digit: "d < 10 \<Longrightarrow> (of_char (char_of (48 + d :: nat)) :: nat) = 48 + d"
  by simp

lemma isDec_digit: "d < 10 \<Longrightarrow> isDec (char_of (48 + d :: nat))"
  by (simp add: isDec_def)

lemma digitVal_digit: "d < 10 \<Longrightarrow> digitVal (char_of (48 + d :: nat)) = Some d"
  by (simp add: digitVal_def Let_def)

lemma digitVal_isDec: "isDec c \<Longrightarrow> \<exists>d. digitVal c = Some d \<and> d < 10"
  by (auto simp: digitVal_def isDec_def Let_def)

lemma parseDigits_snoc:
  "list_all isDec xs \<Longrightarrow> digitVal c = Some d \<Longrightarrow> d < 10 \<Longrightarrow>
   parseDigits 10 (xs @ [c]) acc =
     Some ((case parseDigits 10 xs acc of None \<Rightarrow> 0 | Some a \<Rightarrow> a) * 10 + d)"
proof (induction xs arbitrary: acc)
  case Nil
  then show ?case by simp
next
  case (Cons x xs)
  from Cons.prems obtain e where e: "digitVal x = Some e" "e < 10"
    using digitVal_isDec by auto
  with Cons show ?case by simp
qed

lemma decimal_all_isDec: "list_all isDec (decimal n)"
proof (induction n rule: decimal.induct)
  case (1 n)
  show ?case
  proof (cases "n < 10")
    case True
    then show ?thesis by (subst decimal.simps) (simp add: isDec_digit)
  next
    case False
    then show ?thesis using 1 by (subst decimal.simps) (simp add: isDec_digit)
  qed
qed

lemma decimal_nonempty: "decimal n \<noteq> []"
  by (subst decimal.simps) simp

lemma parseDigits_decimal: "parseDigits 10 (decimal n) None = Some n"
proof (induction n rule: decimal.induct)
  case (1 n)
  show ?case
  proof (cases "n < 10")
    case True
    then show ?thesis by (subst decimal.simps) (simp add: digitVal_digit)
  next
    case False
    have "parseDigits 10 (decimal (n div 10) @ [char_of (48 + n mod 10)]) None =
      Some ((case parseDigits 10 (decimal (n div 10)) None of None \<Rightarrow> 0 | Some a \<Rightarrow> a) * 10 + n mod 10)"
      by (rule parseDigits_snoc) (simp_all add: decimal_all_isDec digitVal_digit)
    with False 1 show ?thesis by (subst decimal.simps) simp
  qed
qed

lemma skipWhiteSpace_id: "whiteSpaceLength s = 0 \<Longrightarrow> skipWhiteSpace s = s"
  by (cases s) (simp_all add: skipWhiteSpace.simps(2))

lemma parseInt_isDec:
  assumes "list_all isDec s"
  shows "parseInt s = map_option int (parseDigits 10 s None)"
proof (cases s)
  case Nil
  then show ?thesis by (simp add: parseInt_def)
next
  case (Cons c r)
  with assms have c: "isDec c" and r: "list_all isDec r" by simp_all
  from c have c1: "c \<noteq> CHR ''-''" "c \<noteq> CHR ''+''"
    by (auto simp: isDec_def)
  from c have w: "whiteSpaceLength (c # r) = 0"
    by (auto simp: isDec_def whiteSpaceLength_def split: list.splits)
  have hex: "\<not> (case s of a # b # _ \<Rightarrow> a = CHR ''0'' \<and> (b = CHR ''x'' \<or> b = CHR ''X'') | _ \<Rightarrow> False)"
  proof (cases r)
    case Nil
    with Cons show ?thesis by simp
  next
    case (Cons b r')
    with r have "isDec b" by simp
    then have "b \<noteq> CHR ''x''" "b \<noteq> CHR ''X''" by (auto simp: isDec_def)
    with Cons \<open>s = c # r\<close> show ?thesis by simp
  qed
  from Cons w have s: "skipWhiteSpace s = s" by (simp add: skipWhiteSpace_id)
  show ?thesis
    unfolding parseInt_def Let_def s using hex c1 Cons by simp
qed

lemma parseInt_decimal: "parseInt (decimal n) = Some (int n)"
  by (simp add: parseInt_isDec decimal_all_isDec parseDigits_decimal)

lemma parseIntOr_decimal: "0 < n \<Longrightarrow> parseIntOr (Some (decimal n)) d = int n"
  by (simp add: parseIntOr_def parseInt_decimal)

lemma ceilDiv_ceiling: "ceilDiv a b = \<lceil>real_of_int a / real_of_int b\<rceil>"
proof -
  have "\<lfloor>real_of_int (- a) / real_of_int b\<rfloor> = (- a) div b"
    by (rule floor_divide_of_int_eq)
  then show ?thesis by (simp add: ceilDiv_def ceiling_def)
qed

lemma ceilDiv_covers: "0 < b \<Longrightarrow> a \<le> ceilDiv a b * b"
proof -
  assume b: "0 < b"
  have "(- a) div b * b \<le> - a"
  proof -
    have "- a = (- a) div b * b + (- a) mod b" by simp
    moreover have "0 \<le> (- a) mod b" using b by simp
    ultimately show ?thesis by linarith
  qed
  then show ?thesis by (simp add: ceilDiv_def)
qed

lemma concat_pages:
  "concat (map (\<lambda>p. take l (drop ((p - 1) * l) xs)) [1..<Suc N]) = take (N * l) xs"
proof (induction N)
  case 0
  then show ?case by simp
next
  case (Suc N)
  have "take (N * l + l) xs = take (N * l) xs @ take l (drop (N * l) xs)"
    by (rule take_add)
  moreover have "Suc N * l = N * l + l" by simp
  moreover have "[1..<Suc (Suc N)] = [1..<Suc N] @ [Suc N]" by simp
  ultimately show ?case using Suc by (simp del: upt_Suc mult_Suc)
qed

lemma newestFirst_sorted:
  "newestFirst srt \<Longrightarrow> sorted_wrt (\<lambda>a b. createdAt b \<le> createdAt a) (srt ts)"
  by (simp add: newestFirst_def)

lemma newestFirst_mset: "newestFirst srt \<Longrightarrow> mset (srt ts) = mset ts"
  by (simp add: newestFirst_def)

lemma newestFirst_set: "newestFirst srt \<Longrightarrow> set (srt ts) = set ts"
  by (metis newestFirst_mset set_mset_mset)

lemma newestFirst_length: "newestFirst srt \<Longrightarrow> length (srt ts) = length ts"
  by (metis newestFirst_mset size_mset)

lemma newestFirst_distinct_map:
  "newestFirst srt \<Longrightarrow> distinct (map g (srt ts)) \<longleftrightarrow> distinct (map g ts)"
proof -
  assume "newestFirst srt"
  then have "mset (map g (srt ts)) = mset (map g ts)"
    by (simp add: newestFirst_mset)
  then show ?thesis by (rule mset_eq_imp_distinct_iff)
qed

lemma newestFirstStable_valid: "newestFirst newestFirstStable"
proof -
  have "sorted_wrt (\<lambda>a b. createdAt b \<le> createdAt a) (newestFirstStable ts)" for ts
  proof -
    have "sorted (map (\<lambda>t. - createdAt t) (newestFirstStable ts))"
      unfolding newestFirstStable_def by (rule sorted_sort_key)
    then show ?thesis by (simp add: sorted_map)
  qed
  then show ?thesis by (simp add: newestFirst_def newestFirstStable_def)
qed

lemma newestFirstReversed_valid: "newestFirst newestFirstReversed"
proof -
  have "sorted_wrt (\<lambda>a b. createdAt b \<le> createdAt a) (newestFirstReversed ts)" for ts
  proof -
    have "sorted (map createdAt (sort_key createdAt ts))"
      by (rule sorted_sort_key)
    then show ?thesis by (simp add: newestFirstReversed_def sorted_map sorted_wrt_rev)
  qed
  then show ?thesis by (simp add: newestFirst_def newestFirstReversed_def)
qed

text \<open>
  When the creation times are pairwise distinct there is one descending order, and
  every ordering that the store may use gives it.
\<close>

lemma newestFirst_unique:
  assumes "newestFirst srt" "newestFirst srt'" "distinct (map createdAt ts)"
  shows "srt ts = srt' ts"
proof -
  let ?f = "\<lambda>t. - createdAt t"
  have inj: "inj_on ?f (set ts)"
    using assms(3) by (auto simp: distinct_map inj_on_def)
  have d: "distinct (map ?f ts)"
    using assms(3) inj by (simp add: distinct_map)
  have s: "sorted (map ?f (srt ts))" "sorted (map ?f (srt' ts))"
    using newestFirst_sorted [OF assms(1), of ts] newestFirst_sorted [OF assms(2), of ts]
    by (simp_all add: sorted_map)
  have dd: "distinct (map ?f (srt ts))" "distinct (map ?f (srt' ts))"
    using d assms(1,2) by (simp_all add: newestFirst_distinct_map)
  have "set (map ?f (srt ts)) = set (map ?f (srt' ts))"
    using assms(1,2) by (simp add: newestFirst_set)
  with s dd have "map ?f (srt ts) = map ?f (srt' ts)"
    by (intro sorted_distinct_set_unique)
  moreover have "inj_on ?f (set (srt ts) \<union> set (srt' ts))"
    using inj assms(1,2) by (simp add: newestFirst_set)
  ultimately show ?thesis by (simp add: inj_on_map_eq_map)
qed

lemma getAllTodos_list:
  assumes "payload (getAllTodos srt db req) = ListData ts tot pg lmt pgs"
  shows "pg = parseIntOr (query_page req) 1"
    and "lmt = parseIntOr (query_limit req) 10"
    and "0 \<le> (pg - 1) * lmt"
    and "ts = (let rest = drop (nat ((pg - 1) * lmt))
                       (srt (filter (matches (listFilter req)) db))
               in if lmt = 0 then rest else take (nat \<bar>lmt\<bar>) rest)"
    and "tot = int (length (filter (matches (listFilter req)) db))"
    and "pgs = ceilDiv tot lmt"
  using assms
  by (auto simp: getAllTodos_def find_def countDocuments_def reply_def Let_def
           split: if_splits)

lemma getAllTodos_ok:
  assumes "0 \<le> (parseIntOr (query_page req) 1 - 1) * parseIntOr (query_limit req) 10"
  shows "getAllTodos srt db req =
     reply 200 ''Todos retrieved successfully''
       (ListData
          (let rest = drop (nat ((parseIntOr (query_page req) 1 - 1) * parseIntOr (query_limit req) 10))
                       (srt (filter (matches (listFilter req)) db))
           in if parseIntOr (query_limit req) 10 = 0 then rest
              else take (nat \<bar>parseIntOr (query_limit req) 10\<bar>) rest)
          (int (length (filter (matches (listFilter req)) db)))
          (parseIntOr (query_page req) 1)
          (parseIntOr (query_limit req) 10)
          (ceilDiv (int (length (filter (matches (listFilter req)) db)))
             (parseIntOr (query_limit req) 10)))"
  using assms
  by (simp add: getAllTodos_def find_def countDocuments_def Let_def)

lemma listFilter_paging [simp]:
  "listFilter (req\<lparr>query_page := a, query_limit := b\<rparr>) = listFilter req"
  by (simp add: listFilter_def)

lemma ceilDiv_nonneg: "0 \<le> a \<Longrightarrow> 0 < b \<Longrightarrow> 0 \<le> ceilDiv a b"
proof -
  assume "0 \<le> a" "0 < b"
  then have "(- a) div b \<le> 0"
    by (intro div_nonpos_pos_le0) simp_all
  then show ?thesis by (simp add: ceilDiv_def)
qed

lemma page_of_decimal:
  assumes "0 < l" "0 < p"
  shows "GET_todos srt db (req\<lparr>query_page := Some (decimal p), query_limit := Some (decimal l)\<rparr>) =
     reply 200 ''Todos retrieved successfully''
       (ListData (take l (drop ((p - 1) * l) (srt (filter (matches (listFilter req)) db))))
          (countDocuments db (listFilter req)) (int p) (int l)
          (ceilDiv (countDocuments db (listFilter req)) (int l)))"
proof -
  let ?r = "req\<lparr>query_page := Some (decimal p), query_limit := Some (decimal l)\<rparr>"
  have pg: "parseIntOr (query_page ?r) 1 = int p" and lm: "parseIntOr (query_limit ?r) 10 = int l"
    using assms by (simp_all add: parseIntOr_decimal)
  have sk: "nat ((int p - 1) * int l) = (p - 1) * l"
    using assms by (simp add: nat_mult_distrib nat_diff_distrib')
  have "0 \<le> (parseIntOr (query_page ?r) 1 - 1) * parseIntOr (query_limit ?r) 10"
    unfolding pg lm using assms by simp
  from getAllTodos_ok [OF this, of srt db] show ?thesis
    unfolding pg lm GET_todos_def using assms
    by (simp add: sk Let_def countDocuments_def)
qed

lemma parseInt_1000: "parseInt ''1000'' = Some 1000"
  by code_simp

lemma find_SomeD: "List.find P xs = Some x \<Longrightarrow> P x \<and> x \<in> set xs"
  by (induction xs) (auto split: if_splits)

lemma find_NoneI: "\<forall>x \<in> set xs. \<not> P x \<Longrightarrow> List.find P xs = None"
  by (induction xs) auto

lemma find_filter_owner:
  "List.find (\<lambda>t. todo_id t = oid \<and> user t = u) (filter (\<lambda>t. user t = u) db) =
   List.find (\<lambda>t. todo_id t = oid \<and> user t = u) db"
  by (induction db) auto

lemma filter_removeFirst:
  "\<forall>x \<in> set xs. P x \<longrightarrow> \<not> Q x \<Longrightarrow> filter Q (removeFirst P xs) = filter Q xs"
  by (induction xs) auto

lemma filter_replaceFirst:
  "\<forall>x \<in> set xs. P x \<longrightarrow> \<not> Q x \<Longrightarrow> \<not> Q y \<Longrightarrow> filter Q (replaceFirst P y xs) = filter Q xs"
  by (induction xs) auto

lemma removeFirst_none: "\<forall>x \<in> set xs. \<not> P x \<Longrightarrow> removeFirst P xs = xs"
  by (induction xs) auto

lemma distinct_same_id:
  "distinct (map todo_id db) \<Longrightarrow> t \<in> set db \<Longrightarrow> x \<in> set db \<Longrightarrow> todo_id x = todo_id t \<Longrightarrow> x = t"
  by (meson distinct_map inj_onD)

lemma applyFields_keeps [simp]:
  "user (applyFields L b t) = user t" "todo_id (applyFields L b t) = todo_id t"
  "createdAt (applyFields L b t) = createdAt t"
  by (simp_all add: applyFields_def Let_def)

lemma touch_keeps [simp]:
  "user (touch now t t') = user t'" "todo_id (touch now t t') = todo_id t'"
  "createdAt (touch now t t') = createdAt t'" "title (touch now t t') = title t'"
  "description (touch now t t') = description t'" "completed (touch now t t') = completed t'"
  "priority (touch now t t') = priority t'" "dueDate (touch now t t') = dueDate t'"
  by (simp_all add: touch_def)

lemma validated_fields [simp]:
  "params_id (validated c req) = params_id req" "req_user (validated c req) = req_user req"
  "body (validated c req) = body req" "validationErrors (validated c req) = c req"
  by (simp_all add: validated_def)

lemma getTodoById_cases:
  "getTodoById L db req =
     (case castObjectId L (params_id req) of
        None \<Rightarrow> reply 500 ''Server error while fetching todo'' (ErrorDetail CastError)
      | Some oid \<Rightarrow>
          (case List.find (\<lambda>t. todo_id t = oid \<and> user t = req_user req) db of
             None \<Rightarrow> reply 404 ''Todo not found'' NoData
           | Some t \<Rightarrow> reply 200 ''Todo retrieved successfully'' (TodoData t)))"
  by (simp add: getTodoById_def findOne_def split: option.splits)

lemma deleteTodo_cases:
  "deleteTodo L db req =
     (case castObjectId L (params_id req) of
        None \<Rightarrow> (db, reply 500 ''Server error while deleting todo'' (ErrorDetail CastError))
      | Some oid \<Rightarrow>
          (case List.find (\<lambda>t. todo_id t = oid \<and> user t = req_user req) db of
             None \<Rightarrow> (removeFirst (\<lambda>t. todo_id t = oid \<and> user t = req_user req) db,
                       reply 404 ''Todo not found'' NoData)
           | Some t \<Rightarrow> (removeFirst (\<lambda>t. todo_id t = oid \<and> user t = req_user req) db,
                        reply 200 ''Todo deleted successfully'' NoData)))"
  by (simp add: deleteTodo_def findOneAndDelete_def Let_def split: option.splits)

lemma updateTodo_cases:
  "updateTodo L now db req =
     (if validationErrors req \<noteq> [] then
        (db, reply 400 ''Validation failed'' (Errors (validationErrors req)))
      else case castObjectId L (params_id req) of
        None \<Rightarrow> (db, reply 500 ''Server error while updating todo'' (ErrorDetail CastError))
      | Some oid \<Rightarrow>
          (case List.find (\<lambda>t. todo_id t = oid \<and> user t = req_user req) db of
             None \<Rightarrow> (db, reply 404 ''Todo not found'' NoData)
           | Some t \<Rightarrow>
               (if validTodo (touch now t (applyFields L (body req) t))
                then (replaceFirst (\<lambda>x. todo_id x = todo_id t)
                        (touch now t (applyFields L (body req) t)) db,
                      reply 200 ''Todo updated successfully''
                        (TodoData (touch now t (applyFields L (body req) t))))
                else (db, reply 500 ''Server error while updating todo''
                        (ErrorDetail ValidationError)))))"
  by (simp add: updateTodo_def findOne_def saveExisting_def Let_def split: option.splits)

lemma reply_simps [simp]:
  "status (reply c m d) = c" "payload (reply c m d) = d" "message (reply c m d) = m"
  "success (reply c m d) = (c < 400)"
  by (simp_all add: reply_def)

lemma get_only_owner:
  "payload (GET_todos_id L db req) = TodoData t \<Longrightarrow> user t = req_user req \<and> t \<in> set db"
  by (auto simp: GET_todos_id_def getTodoById_cases split: option.splits dest: find_SomeD)

lemma put_only_owner:
  "payload (snd (PUT_todos_id L now db req)) = TodoData t \<Longrightarrow> user t = req_user req"
  by (auto simp: PUT_todos_id_def updateTodo_cases split: option.splits if_splits dest: find_SomeD)

lemma put_keeps_others:
  assumes "distinct (map todo_id db)"
  shows "filter (\<lambda>t. user t \<noteq> req_user req) (fst (PUT_todos_id L now db req)) =
         filter (\<lambda>t. user t \<noteq> req_user req) db"
proof -
  { fix oid t
    assume f: "List.find (\<lambda>t. todo_id t = oid \<and> user t = req_user req) db = Some t"
    then have t: "t \<in> set db" "user t = req_user req" by (auto dest: find_SomeD)
    have "\<forall>x \<in> set db. todo_id x = todo_id t \<longrightarrow> \<not> user x \<noteq> req_user req"
      using distinct_same_id [OF assms t(1)] t(2) by auto
    then have "filter (\<lambda>t. user t \<noteq> req_user req)
        (replaceFirst (\<lambda>x. todo_id x = todo_id t) (touch now t (applyFields L (body req) t)) db) =
        filter (\<lambda>t. user t \<noteq> req_user req) db"
      by (rule filter_replaceFirst) (simp add: t(2))
  }
  then show ?thesis
    by (simp add: PUT_todos_id_def updateTodo_cases split: option.splits)
qed

lemma delete_keeps_others:
  "filter (\<lambda>t. user t \<noteq> req_user req) (fst (DELETE_todos_id L db req)) =
   filter (\<lambda>t. user t \<noteq> req_user req) db"
  by (simp add: DELETE_todos_id_def deleteTodo_cases filter_removeFirst split: option.splits)

lemma not_owned_find:
  assumes "distinct (map todo_id db)" "t \<in> set db" "user t \<noteq> u"
  shows "List.find (\<lambda>x. todo_id x = todo_id t \<and> user x = u) db = None"
proof (rule find_NoneI, rule ballI)
  fix x assume "x \<in> set db"
  with distinct_same_id [OF assms(1,2)] assms(3)
  show "\<not> (todo_id x = todo_id t \<and> user x = u)" by auto
qed

lemma find_owned:
  "distinct (map todo_id db) \<Longrightarrow> t \<in> set db \<Longrightarrow> user t = u \<Longrightarrow>
   List.find (\<lambda>x. todo_id x = todo_id t \<and> user x = u) db = Some t"
proof (induction db)
  case Nil
  then show ?case by simp
next
  case (Cons x xs)
  show ?case
  proof (cases "x = t")
    case True
    with Cons.prems show ?thesis by simp
  next
    case False
    with Cons.prems have "t \<in> set xs" "todo_id x \<noteq> todo_id t" by auto
    with Cons show ?thesis by simp
  qed
qed

lemma replaceFirst_distinct:
  "distinct (map f xs) \<Longrightarrow> t \<in> set xs \<Longrightarrow>
   replaceFirst (\<lambda>x. f x = f t) y xs = map (\<lambda>x. if x = t then y else x) xs"
proof (induction xs)
  case Nil
  then show ?case by simp
next
  case (Cons x xs)
  show ?case
  proof (cases "x = t")
    case True
    with Cons.prems have "t \<notin> set xs" by auto
    then have "map (\<lambda>x. if x = t then y else x) xs = xs"
      by (induction xs) auto
    with True show ?thesis by simp
  next
    case False
    with Cons.prems have "t \<in> set xs" "f x \<noteq> f t" by auto
    with Cons False show ?thesis by simp
  qed
qed

lemma applyFields_frame:
  "body_title b = Absent \<Longrightarrow> title (applyFields L b t) = title t"
  "body_description b = Absent \<Longrightarrow> description (applyFields L b t) = description t"
  "body_completed b = Absent \<Longrightarrow> completed (applyFields L b t) = completed t"
  "body_priority b = Absent \<Longrightarrow> priority (applyFields L b t) = priority t"
  "body_dueDate b = Absent \<Longrightarrow> dueDate (applyFields L b t) = dueDate t"
  by (simp_all add: applyFields_def Let_def)

lemma put_ok_shape:
  assumes "payload (snd (PUT_todos_id L now db req)) = TodoData t'"
  shows "\<exists>t \<in> set db. user t = req_user req \<and>
           castObjectId L (params_id req) = Some (todo_id t) \<and>
           t' = touch now t (applyFields L (body req) t)"
  using assms
  by (auto simp: PUT_todos_id_def updateTodo_cases split: option.splits if_splits
        dest!: find_SomeD)

lemma only_completed_valid:
  "isMongoId (params_id req) \<Longrightarrow> body req = emptyBody\<lparr>body_completed := Val True\<rparr> \<Longrightarrow>
   updateTodoValidation L req = []"
  by (simp add: updateTodoValidation_def idCheck_def priorityCheck_def dueDateCheck_def
        emptyBody_def boolString_def isBoolean_def)

lemma only_completed_apply:
  "applyFields L (emptyBody\<lparr>body_completed := Val True\<rparr>) t = t\<lparr>completed := Some True\<rparr>"
  by (simp add: applyFields_def emptyBody_def fieldOption_def Let_def)

lemma touch_completed:
  "touch now t (t\<lparr>completed := Some True\<rparr>) =
     t\<lparr>completed := Some True,
       updatedAt := (if completed t = Some True then updatedAt t else now)\<rparr>"
proof (cases "completed t = Some True")
  case True
  then have "t\<lparr>completed := Some True\<rparr> = t" by simp
  with True show ?thesis by (simp add: touch_def)
next
  case False
  then have "t\<lparr>completed := Some True\<rparr> \<noteq> t"
    by (metis todo.select_convs(4) todo.surjective todo.update_convs(4))
  with False show ?thesis by (simp add: touch_def)
qed

lemma null_dueDate_handler:
  assumes "validationErrors req = []" "body_dueDate (body req) = Null"
    and "payload (snd (updateTodo L now db req)) = TodoData t'"
  shows "dueDate t' = None"
  using assms
  by (auto simp: updateTodo_cases applyFields_def dueDateOf_def Let_def
        split: option.splits if_splits)

lemma create_valid:
  assumes "createTodoValidation L req = []"
  shows "\<exists>s. body_title (body req) = Val s \<and> s \<noteq> []"
    and "body_priority (body req) = Absent \<or>
         (\<exists>p. body_priority (body req) = Val p \<and> p \<in> set [''low'', ''medium'', ''high''])"
proof -
  from assms have t: "fieldString (body_title (body req)) \<noteq> []"
    and p: "priorityCheck (body_priority (body req)) = []"
    by (auto simp: createTodoValidation_def split: if_splits)
  from t show "\<exists>s. body_title (body req) = Val s \<and> s \<noteq> []"
    by (cases "body_title (body req)") (simp_all add: fieldString_def)
  from p show "body_priority (body req) = Absent \<or>
         (\<exists>p. body_priority (body req) = Val p \<and> p \<in> set [''low'', ''medium'', ''high''])"
    by (cases "body_priority (body req)")
       (simp_all add: priorityCheck_def fieldString_def split: if_splits)
qed

lemma POST_cases:
  "POST_todos L oid now db req =
     (if createTodoValidation L req \<noteq> [] then
        (db, reply 400 ''Validation failed'' (Errors (createTodoValidation L req)))
      else if \<not> validTodo (newTodo L oid now req) then
        (db, reply 500 ''Server error while creating todo'' (ErrorDetail ValidationError))
      else if oid \<in> set (map todo_id db) then
        (db, reply 500 ''Server error while creating todo'' (ErrorDetail DuplicateKey))
      else (db @ [newTodo L oid now req],
            reply 201 ''Todo created successfully'' (TodoData (newTodo L oid now req))))"
  by (simp add: POST_todos_def createTodo_def saveNew_def newTodo_def Let_def)

lemma find_append_new:
  "oid \<notin> set (map todo_id db) \<Longrightarrow> todo_id t = oid \<Longrightarrow> user t = u \<Longrightarrow>
   List.find (\<lambda>x. todo_id x = oid \<and> user x = u) (db @ [t]) = Some t"
  by (induction db) auto


section \<open>Properties of the task API\<close>

text \<open>
  Claim C1 (ownership isolation). In a store whose identifiers are unique, reading,
  updating and deleting act only on tasks of the caller: a task that is returned by
  \<open>GET /todos/:id\<close> or \<open>PUT /todos/:id\<close> is owned by the caller; the tasks of all other
  owners are exactly the same, in the same order, after an update or a delete; and
  when the identifier in the request is that of a stored task of another owner, the
  read and the delete answer 404, the update answers 400 or 404, and the store is
  unchanged.
\<close>

theorem ownership_isolation:
  assumes "distinct (map todo_id db)"
  shows "(\<forall>t. payload (GET_todos_id L db req) = TodoData t \<longrightarrow> user t = req_user req) \<and>
         (\<forall>t. payload (snd (PUT_todos_id L now db req)) = TodoData t \<longrightarrow> user t = req_user req) \<and>
         filter (\<lambda>t. user t \<noteq> req_user req) (fst (PUT_todos_id L now db req)) =
           filter (\<lambda>t. user t \<noteq> req_user req) db \<and>
         filter (\<lambda>t. user t \<noteq> req_user req) (fst (DELETE_todos_id L db req)) =
           filter (\<lambda>t. user t \<noteq> req_user req) db \<and>
         (\<forall>t \<in> set db. user t \<noteq> req_user req \<and> castObjectId L (params_id req) = Some (todo_id t) \<longrightarrow>
            GET_todos_id L db req = reply 404 ''Todo not found'' NoData \<and>
            DELETE_todos_id L db req = (db, reply 404 ''Todo not found'' NoData) \<and>
            fst (PUT_todos_id L now db req) = db \<and>
            status (snd (PUT_todos_id L now db req)) \<in> {400, 404})"
proof -
  have "\<forall>t \<in> set db. user t \<noteq> req_user req \<and> castObjectId L (params_id req) = Some (todo_id t) \<longrightarrow>
            GET_todos_id L db req = reply 404 ''Todo not found'' NoData \<and>
            DELETE_todos_id L db req = (db, reply 404 ''Todo not found'' NoData) \<and>
            fst (PUT_todos_id L now db req) = db \<and>
            status (snd (PUT_todos_id L now db req)) \<in> {400, 404}"
  proof (intro ballI impI)
    fix t assume t: "t \<in> set db"
      and "user t \<noteq> req_user req \<and> castObjectId L (params_id req) = Some (todo_id t)"
    then have u: "user t \<noteq> req_user req" and c: "castObjectId L (params_id req) = Some (todo_id t)"
      by simp_all
    note n = not_owned_find [OF assms t u]
    have "\<forall>x \<in> set db. \<not> (todo_id x = todo_id t \<and> user x = req_user req)"
      using distinct_same_id [OF assms t] u by auto
    then have r: "removeFirst (\<lambda>x. todo_id x = todo_id t \<and> user x = req_user req) db = db"
      by (rule removeFirst_none)
    show "GET_todos_id L db req = reply 404 ''Todo not found'' NoData \<and>
            DELETE_todos_id L db req = (db, reply 404 ''Todo not found'' NoData) \<and>
            fst (PUT_todos_id L now db req) = db \<and>
            status (snd (PUT_todos_id L now db req)) \<in> {400, 404}"
      by (simp add: GET_todos_id_def DELETE_todos_id_def PUT_todos_id_def getTodoById_cases
            deleteTodo_cases updateTodo_cases c n r)
  qed
  with get_only_owner put_only_owner put_keeps_others [OF assms] delete_keeps_others
  show ?thesis by blast
qed

text \<open>The statement of the theorem at a concrete store and request.\<close>

theorem ownership_isolation_witness:
  "distinct (map todo_id exampleDb) \<and>
   payload (GET_todos_id exampleLib exampleDb aliceReq) = TodoData milk \<and> user milk = req_user aliceReq \<and>
   payload (snd (PUT_todos_id exampleLib 500 exampleDb aliceReq)) = TodoData milk \<and>
   milk \<in> set exampleDb \<and> user milk \<noteq> req_user (aliceReq\<lparr>req_user := ''bob''\<rparr>) \<and>
   castObjectId exampleLib (params_id (aliceReq\<lparr>req_user := ''bob''\<rparr>)) = Some (todo_id milk) \<and>
   GET_todos_id exampleLib exampleDb (aliceReq\<lparr>req_user := ''bob''\<rparr>) =
     reply 404 ''Todo not found'' NoData \<and>
   DELETE_todos_id exampleLib exampleDb (aliceReq\<lparr>req_user := ''bob''\<rparr>) =
     (exampleDb, reply 404 ''Todo not found'' NoData) \<and>
   fst (PUT_todos_id exampleLib 500 exampleDb (aliceReq\<lparr>req_user := ''bob''\<rparr>)) = exampleDb"
proof -
  have d: "distinct (map todo_id exampleDb)" by code_simp
  have g: "payload (GET_todos_id exampleLib exampleDb aliceReq) = TodoData milk" by code_simp
  have p: "payload (snd (PUT_todos_id exampleLib 500 exampleDb aliceReq)) = TodoData milk"
    by code_simp
  have m: "milk \<in> set exampleDb" by (simp add: exampleDb_def)
  have u: "user milk \<noteq> req_user (aliceReq\<lparr>req_user := ''bob''\<rparr>)" by code_simp
  have c: "castObjectId exampleLib (params_id (aliceReq\<lparr>req_user := ''bob''\<rparr>)) = Some (todo_id milk)"
    by code_simp
  note A = ownership_isolation [OF d, of exampleLib aliceReq 500]
  note B = ownership_isolation [OF d, of exampleLib "aliceReq\<lparr>req_user := ''bob''\<rparr>" 500]
  from A g have "user milk = req_user aliceReq" by blast
  moreover from B m u c have
    "GET_todos_id exampleLib exampleDb (aliceReq\<lparr>req_user := ''bob''\<rparr>) =
       reply 404 ''Todo not found'' NoData \<and>
     DELETE_todos_id exampleLib exampleDb (aliceReq\<lparr>req_user := ''bob''\<rparr>) =
       (exampleDb, reply 404 ''Todo not found'' NoData) \<and>
     fst (PUT_todos_id exampleLib 500 exampleDb (aliceReq\<lparr>req_user := ''bob''\<rparr>)) = exampleDb"
    by blast
  ultimately show ?thesis using d g p m u c by blast
qed

text \<open>
  Claim C2 (existence hiding), amended. For every identifier that the store can cast
  to an ObjectId and every caller, \<open>GET /todos/:id\<close> answers 404 with the message
  \<open>Todo not found\<close> and no data both when no task has the identifier and when the tasks
  that have it belong to other owners. For every identifier whatsoever, the response
  is the one the caller would get if the tasks of all other owners were not stored.
\<close>

theorem existence_hiding:
  shows "GET_todos_id L db req = GET_todos_id L (filter (\<lambda>t. user t = req_user req) db) req \<and>
         (castObjectId L (params_id req) = Some oid \<longrightarrow>
            ((\<forall>t \<in> set db. todo_id t \<noteq> oid) \<longrightarrow>
               GET_todos_id L db req = reply 404 ''Todo not found'' NoData) \<and>
            ((\<exists>t \<in> set db. todo_id t = oid) \<and> (\<forall>t \<in> set db. todo_id t = oid \<longrightarrow> user t \<noteq> req_user req) \<longrightarrow>
               GET_todos_id L db req = reply 404 ''Todo not found'' NoData))"
proof -
  have a: "GET_todos_id L db req = GET_todos_id L (filter (\<lambda>t. user t = req_user req) db) req"
    by (simp add: GET_todos_id_def getTodoById_cases find_filter_owner split: option.splits)
  { assume c: "castObjectId L (params_id req) = Some oid"
      and n: "\<forall>t \<in> set db. todo_id t = oid \<longrightarrow> user t \<noteq> req_user req"
    then have "List.find (\<lambda>t. todo_id t = oid \<and> user t = req_user req) db = None"
      by (intro find_NoneI) auto
    with c have "GET_todos_id L db req = reply 404 ''Todo not found'' NoData"
      by (simp add: GET_todos_id_def getTodoById_cases)
  }
  with a show ?thesis by blast
qed

text \<open>
  The amended statement at a task of another owner and at a store without the
  identifier.
\<close>

theorem existence_hiding_witness:
  "castObjectId exampleLib (params_id (aliceReq\<lparr>req_user := ''bob''\<rparr>)) = Some (todo_id milk) \<and>
   milk \<in> set exampleDb \<and> user milk \<noteq> ''bob'' \<and>
   todo_id taxes \<noteq> todo_id milk \<and> todo_id walk \<noteq> todo_id milk \<and>
   GET_todos_id exampleLib exampleDb (aliceReq\<lparr>req_user := ''bob''\<rparr>) =
     reply 404 ''Todo not found'' NoData \<and>
   GET_todos_id exampleLib [walk] (aliceReq\<lparr>req_user := ''bob''\<rparr>) =
     reply 404 ''Todo not found'' NoData"
proof -
  have c: "castObjectId exampleLib (params_id (aliceReq\<lparr>req_user := ''bob''\<rparr>)) = Some (todo_id milk)"
    by code_simp
  have e: "\<exists>t \<in> set exampleDb. todo_id t = todo_id milk" by code_simp
  have o: "\<forall>t \<in> set exampleDb. todo_id t = todo_id milk \<longrightarrow>
             user t \<noteq> req_user (aliceReq\<lparr>req_user := ''bob''\<rparr>)" by code_simp
  have n: "\<forall>t \<in> set [walk]. todo_id t \<noteq> todo_id milk" by code_simp
  have m: "milk \<in> set exampleDb" "user milk \<noteq> ''bob''"
    "todo_id taxes \<noteq> todo_id milk" "todo_id walk \<noteq> todo_id milk"
    by code_simp+
  from existence_hiding [of exampleLib exampleDb "aliceReq\<lparr>req_user := ''bob''\<rparr>" "todo_id milk"]
    c e o
  have g1: "GET_todos_id exampleLib exampleDb (aliceReq\<lparr>req_user := ''bob''\<rparr>) =
     reply 404 ''Todo not found'' NoData"
    by blast
  from existence_hiding [of exampleLib "[walk]" "aliceReq\<lparr>req_user := ''bob''\<rparr>" "todo_id milk"]
    c n
  have g2: "GET_todos_id exampleLib [walk] (aliceReq\<lparr>req_user := ''bob''\<rparr>) =
     reply 404 ''Todo not found'' NoData"
    by blast
  from c m g1 g2 show ?thesis by (intro conjI)
qed

text \<open>
  Claim C2 as stated fails for an identifier that cannot be cast: no task has the
  identifier \<open>abc\<close>, and the response is the 500 envelope, not 404.
\<close>

theorem existence_hiding_counterexample:
  "GET_todos_id exampleLib [] (aliceReq\<lparr>params_id := ''abc''\<rparr>) =
     reply 500 ''Server error while fetching todo'' (ErrorDetail CastError) \<and>
   GET_todos_id exampleLib [] (aliceReq\<lparr>params_id := ''abc''\<rparr>) \<noteq>
     reply 404 ''Todo not found'' NoData"
  by code_simp

text \<open>
  Claim C3 (list filter). When the query has \<open>completed=true\<close> and the list is returned,
  every returned task is owned by the caller and completed, \<open>total\<close> is the number of
  stored tasks that pass the filter (owner, completed, and priority when given), before
  skip and limit, and \<open>pages\<close> is the ceiling of \<open>total / limit\<close>. This holds for every
  ordering that the store may use.
\<close>

theorem list_completed_filter:
  assumes "newestFirst srt"
    and "query_completed req = Some ''true''"
    and "payload (GET_todos srt db req) = ListData ts tot pg lmt pgs"
  shows "(\<forall>t \<in> set ts. user t = req_user req \<and> completed t = Some True) \<and>
         tot = int (length (filter (\<lambda>t. user t = req_user req \<and> completed t = Some True \<and>
                 (case filter_priority (listFilter req) of None \<Rightarrow> True
                  | Some p \<Rightarrow> priority t = Some p)) db)) \<and>
         lmt = parseIntOr (query_limit req) 10 \<and>
         pgs = \<lceil>real_of_int tot / real_of_int lmt\<rceil>"
proof -
  note L = getAllTodos_list [OF assms(3) [unfolded GET_todos_def]]
  have m: "matches (listFilter req) = (\<lambda>t. user t = req_user req \<and> completed t = Some True \<and>
                 (case filter_priority (listFilter req) of None \<Rightarrow> True
                  | Some p \<Rightarrow> priority t = Some p))"
    using assms(2) by (auto simp: matches_def listFilter_def fun_eq_iff)
  have "set ts \<subseteq> set (filter (matches (listFilter req)) db)"
  proof -
    have "set ts \<subseteq> set (srt (filter (matches (listFilter req)) db))"
      unfolding L(4) Let_def
      by (auto dest: in_set_takeD in_set_dropD)
    then show ?thesis by (simp only: newestFirst_set [OF assms(1)])
  qed
  then have "\<forall>t \<in> set ts. user t = req_user req \<and> completed t = Some True"
    unfolding m by auto
  moreover have "tot = int (length (filter (\<lambda>t. user t = req_user req \<and> completed t = Some True \<and>
                 (case filter_priority (listFilter req) of None \<Rightarrow> True
                  | Some p \<Rightarrow> priority t = Some p)) db))"
    using L(5) unfolding m .
  moreover have "pgs = \<lceil>real_of_int tot / real_of_int lmt\<rceil>"
    using L(6) by (simp add: ceilDiv_ceiling)
  ultimately show ?thesis using L(2) by simp
qed

text \<open>The statement of the theorem at a concrete store and request.\<close>

theorem list_completed_filter_witness:
  "newestFirst newestFirstStable \<and>
   query_completed (aliceReq\<lparr>query_completed := Some ''true''\<rparr>) = Some ''true'' \<and>
   payload (GET_todos newestFirstStable exampleDb (aliceReq\<lparr>query_completed := Some ''true''\<rparr>)) =
     ListData [walk, milk] 2 1 10 1 \<and>
   user walk = ''alice'' \<and> completed walk = Some True \<and>
   user milk = ''alice'' \<and> completed milk = Some True \<and>
   (1::int) = \<lceil>real_of_int 2 / real_of_int 10\<rceil>"
proof -
  note v = newestFirstStable_valid
  have q: "query_completed (aliceReq\<lparr>query_completed := Some ''true''\<rparr>) = Some ''true''"
    by simp
  have p: "payload (GET_todos newestFirstStable exampleDb
             (aliceReq\<lparr>query_completed := Some ''true''\<rparr>)) =
     ListData [walk, milk] 2 1 10 1"
    by code_simp
  have u: "req_user (aliceReq\<lparr>query_completed := Some ''true''\<rparr>) = ''alice''"
    by code_simp
  note T = list_completed_filter [OF v q p, unfolded u]
  from T have "user walk = ''alice'' \<and> completed walk = Some True"
    and "user milk = ''alice'' \<and> completed milk = Some True"
    and "(1::int) = \<lceil>real_of_int 2 / real_of_int 10\<rceil>"
    by simp_all
  with v q p show ?thesis by (intro conjI) simp_all
qed

text \<open>
  Claim C4 (pagination completeness), amended. Let the limit \<open>l\<close> be between 1 and
  \<open>2 ^ 53\<close>, the store hold at most \<open>2 ^ 53\<close> tasks, and \<open>srt p\<close> be the ordering that the
  store uses for the query of page \<open>p\<close>. Every page from 1 to \<open>ceil(total / l)\<close> is
  returned with status 200, the same total and that number of pages. When the
  creation times of the tasks that pass the filter are pairwise distinct, or the store
  orders these tasks in every page query as it does in the first, the item lists of the
  pages, concatenated in page order, are the ordered list of the first query. That list
  is a permutation of the stored tasks that pass the filter, so that no task is missing
  and, identifiers being unique in the store, none occurs twice.
\<close>

theorem pagination_complete:
  assumes "0 < l" and "l \<le> 2 ^ 53" and "length db \<le> 2 ^ 53"
    and "\<forall>p. newestFirst (srt p)"
  shows "(\<forall>p \<in> {1..nat (ceilDiv (countDocuments db (listFilter req)) (int l))}.
            status (GET_todos (srt p) db
              (req\<lparr>query_page := Some (decimal p), query_limit := Some (decimal l)\<rparr>)) = 200 \<and>
            total (payload (GET_todos (srt p) db
              (req\<lparr>query_page := Some (decimal p), query_limit := Some (decimal l)\<rparr>)))
              = countDocuments db (listFilter req) \<and>
            pages (payload (GET_todos (srt p) db
              (req\<lparr>query_page := Some (decimal p), query_limit := Some (decimal l)\<rparr>)))
              = ceilDiv (countDocuments db (listFilter req)) (int l)) \<and>
         (distinct (map createdAt (filter (matches (listFilter req)) db)) \<longrightarrow>
            concat (map (\<lambda>p. todos (payload (GET_todos (srt p) db
                      (req\<lparr>query_page := Some (decimal p), query_limit := Some (decimal l)\<rparr>))))
                    [1..<Suc (nat (ceilDiv (countDocuments db (listFilter req)) (int l)))])
              = srt 1 (filter (matches (listFilter req)) db)) \<and>
         ((\<forall>p \<in> {1..nat (ceilDiv (countDocuments db (listFilter req)) (int l))}.
              srt p (filter (matches (listFilter req)) db) =
              srt 1 (filter (matches (listFilter req)) db)) \<longrightarrow>
            concat (map (\<lambda>p. todos (payload (GET_todos (srt p) db
                      (req\<lparr>query_page := Some (decimal p), query_limit := Some (decimal l)\<rparr>))))
                    [1..<Suc (nat (ceilDiv (countDocuments db (listFilter req)) (int l)))])
              = srt 1 (filter (matches (listFilter req)) db)) \<and>
         mset (srt 1 (filter (matches (listFilter req)) db)) =
           mset (filter (matches (listFilter req)) db) \<and>
         (distinct (map todo_id db) \<longrightarrow>
            distinct (map todo_id (srt 1 (filter (matches (listFilter req)) db))))"
proof -
  let ?F = "filter (matches (listFilter req)) db"
  let ?tot = "countDocuments db (listFilter req)"
  let ?N = "nat (ceilDiv ?tot (int l))"
  let ?page = "\<lambda>p. todos (payload (GET_todos (srt p) db
                   (req\<lparr>query_page := Some (decimal p), query_limit := Some (decimal l)\<rparr>)))"
  from assms(4) have v: "newestFirst (srt p)" for p by simp
  have tot: "?tot = int (length (srt 1 ?F))"
    by (simp add: countDocuments_def newestFirst_length [OF v])
  have "?tot \<le> ceilDiv ?tot (int l) * int l"
    using assms(1) by (intro ceilDiv_covers) simp
  moreover have "0 \<le> ceilDiv ?tot (int l)"
    using assms(1) by (intro ceilDiv_nonneg) (simp_all add: countDocuments_def)
  ultimately have "int (length (srt 1 ?F)) \<le> int (?N * l)"
    unfolding tot by simp
  then have cover: "length (srt 1 ?F) \<le> ?N * l" by linarith
  have same: "concat (map ?page [1..<Suc ?N]) = srt 1 ?F"
    if eq: "\<forall>p \<in> {1..?N}. srt p ?F = srt 1 ?F"
  proof -
    have m: "map ?page [1..<Suc ?N] =
               map (\<lambda>p. take l (drop ((p - 1) * l) (srt 1 ?F))) [1..<Suc ?N]"
    proof (intro map_cong refl)
      fix p assume "p \<in> set [1..<Suc ?N]"
      then have p: "0 < p" "p \<in> {1..?N}" by (simp_all del: upt_Suc)
      with eq have "srt p ?F = srt 1 ?F" by blast
      with assms(1) p(1) show "?page p = take l (drop ((p - 1) * l) (srt 1 ?F))"
        by (simp add: page_of_decimal reply_def)
    qed
    have "concat (map ?page [1..<Suc ?N]) =
            concat (map (\<lambda>p. take l (drop ((p - 1) * l) (srt 1 ?F))) [1..<Suc ?N])"
      by (simp only: m)
    also have "\<dots> = take (?N * l) (srt 1 ?F)"
      by (rule concat_pages)
    also have "\<dots> = srt 1 ?F"
      using cover by simp
    finally show ?thesis .
  qed
  have "\<forall>p \<in> {1..?N}. srt p ?F = srt 1 ?F" if "distinct (map createdAt ?F)"
    using newestFirst_unique [OF v v that] by blast
  then have dist: "distinct (map createdAt ?F) \<longrightarrow> concat (map ?page [1..<Suc ?N]) = srt 1 ?F"
    using same by blast
  have pagesok: "\<forall>p \<in> {1..?N}.
            status (GET_todos (srt p) db
              (req\<lparr>query_page := Some (decimal p), query_limit := Some (decimal l)\<rparr>)) = 200 \<and>
            total (payload (GET_todos (srt p) db
              (req\<lparr>query_page := Some (decimal p), query_limit := Some (decimal l)\<rparr>))) = ?tot \<and>
            pages (payload (GET_todos (srt p) db
              (req\<lparr>query_page := Some (decimal p), query_limit := Some (decimal l)\<rparr>)))
              = ceilDiv ?tot (int l)"
  proof
    fix p assume "p \<in> {1..?N}"
    then have "0 < p" by simp
    with assms(1) show "status (GET_todos (srt p) db
              (req\<lparr>query_page := Some (decimal p), query_limit := Some (decimal l)\<rparr>)) = 200 \<and>
            total (payload (GET_todos (srt p) db
              (req\<lparr>query_page := Some (decimal p), query_limit := Some (decimal l)\<rparr>))) = ?tot \<and>
            pages (payload (GET_todos (srt p) db
              (req\<lparr>query_page := Some (decimal p), query_limit := Some (decimal l)\<rparr>)))
              = ceilDiv ?tot (int l)"
      by (simp add: page_of_decimal reply_def)
  qed
  have perm: "mset (srt 1 ?F) = mset ?F"
    by (rule newestFirst_mset [OF v])
  have ids: "distinct (map todo_id db) \<longrightarrow> distinct (map todo_id (srt 1 ?F))"
    by (simp add: newestFirst_distinct_map [OF v] distinct_map_filter)
  from pagesok dist same perm ids show ?thesis by blast
qed

text \<open>
  The statement of the theorem at a concrete store, with the limit 1 and two pages.
\<close>

theorem pagination_complete_witness:
  "(0::nat) < 1 \<and> (1::nat) \<le> 2 ^ 53 \<and> length exampleDb \<le> 2 ^ 53 \<and>
   newestFirst newestFirstStable \<and>
   nat (ceilDiv (countDocuments exampleDb (listFilter aliceReq)) (int 1)) = 2 \<and>
   (1::nat) \<in> {1..2} \<and>
   distinct (map createdAt (filter (matches (listFilter aliceReq)) exampleDb)) \<and>
   distinct (map todo_id exampleDb) \<and>
   status (GET_todos newestFirstStable exampleDb
     (aliceReq\<lparr>query_page := Some (decimal 1), query_limit := Some (decimal 1)\<rparr>)) = 200 \<and>
   concat (map (\<lambda>p. todos (payload (GET_todos newestFirstStable exampleDb
       (aliceReq\<lparr>query_page := Some (decimal p), query_limit := Some (decimal 1)\<rparr>))))
     [1..<Suc 2]) = [walk, milk] \<and>
   distinct (map todo_id [walk, milk])"
proof -
  have l: "(0::nat) < 1" "(1::nat) \<le> 2 ^ 53" by simp_all
  have n: "length exampleDb \<le> 2 ^ 53" by (simp add: exampleDb_def)
  have v: "\<forall>p::nat. newestFirst newestFirstStable"
    by (simp add: newestFirstStable_valid)
  have N: "nat (ceilDiv (countDocuments exampleDb (listFilter aliceReq)) (int 1)) = 2"
    by code_simp
  have s: "newestFirstStable (filter (matches (listFilter aliceReq)) exampleDb) = [walk, milk]"
    by code_simp
  have c: "distinct (map createdAt (filter (matches (listFilter aliceReq)) exampleDb))"
    by code_simp
  have d: "distinct (map todo_id exampleDb)" by code_simp
  note P = pagination_complete [OF l n v, where req = aliceReq, unfolded N s]
  from P have st: "status (GET_todos newestFirstStable exampleDb
     (aliceReq\<lparr>query_page := Some (decimal 1), query_limit := Some (decimal 1)\<rparr>)) = 200"
    by simp
  from P c have cc: "concat (map (\<lambda>p. todos (payload (GET_todos newestFirstStable exampleDb
       (aliceReq\<lparr>query_page := Some (decimal p), query_limit := Some (decimal 1)\<rparr>))))
     [1..<Suc 2]) = [walk, milk]"
    by blast
  from P d have dd: "distinct (map todo_id [walk, milk])" by blast
  from l n N c d st cc dd newestFirstStable_valid show ?thesis by simp
qed

text \<open>
  Claim C4 as stated fails when two tasks that pass the filter have the same creation
  time. The store holds \<open>walk\<close> and \<open>twin\<close>, created at the same instant, with distinct
  identifiers, and nothing is written between the queries. With the limit 1 there are
  two pages. The store answers the first query with the ties in stored order and the
  second with the ties reversed, both newest first: each page holds \<open>walk\<close>, and \<open>twin\<close>,
  which passes the filter, is on neither.
\<close>

theorem pagination_complete_counterexample:
  "newestFirst newestFirstStable \<and> newestFirst newestFirstReversed \<and>
   distinct (map todo_id [walk, twin]) \<and>
   matches (listFilter aliceReq) walk \<and> matches (listFilter aliceReq) twin \<and>
   nat (ceilDiv (countDocuments [walk, twin] (listFilter aliceReq)) (int 1)) = 2 \<and>
   todos (payload (GET_todos newestFirstStable [walk, twin]
     (aliceReq\<lparr>query_page := Some (decimal 1), query_limit := Some (decimal 1)\<rparr>))) = [walk] \<and>
   todos (payload (GET_todos newestFirstReversed [walk, twin]
     (aliceReq\<lparr>query_page := Some (decimal 2), query_limit := Some (decimal 1)\<rparr>))) = [walk] \<and>
   twin \<noteq> walk"
proof -
  have "distinct (map todo_id [walk, twin])"
    and "matches (listFilter aliceReq) walk" and "matches (listFilter aliceReq) twin"
    and "nat (ceilDiv (countDocuments [walk, twin] (listFilter aliceReq)) (int 1)) = 2"
    and "todos (payload (GET_todos newestFirstStable [walk, twin]
     (aliceReq\<lparr>query_page := Some (decimal 1), query_limit := Some (decimal 1)\<rparr>))) = [walk]"
    and "todos (payload (GET_todos newestFirstReversed [walk, twin]
     (aliceReq\<lparr>query_page := Some (decimal 2), query_limit := Some (decimal 1)\<rparr>))) = [walk]"
    and "twin \<noteq> walk"
    by code_simp+
  with newestFirstStable_valid newestFirstReversed_valid show ?thesis by (intro conjI)
qed



text \<open>
  Claim C6 (pagination bounds) does not hold of the handler: a request with
  \<open>limit=1000\<close> is answered with status 200, reports the limit 1000 and carries up to
  1000 tasks, so the limit is neither brought into the range 1 to 100 nor rejected.
  This is so for every ordering that the store may use.
\<close>

theorem limit_1000_not_clamped:
  assumes "newestFirst srt"
  shows
  "status (GET_todos srt db (req\<lparr>query_page := None, query_limit := Some ''1000''\<rparr>)) = 200 \<and>
   limit (payload (GET_todos srt db (req\<lparr>query_page := None, query_limit := Some ''1000''\<rparr>))) = 1000 \<and>
   todos (payload (GET_todos srt db (req\<lparr>query_page := None, query_limit := Some ''1000''\<rparr>))) =
     take 1000 (srt (filter (matches (listFilter req)) db)) \<and>
   length (todos (payload (GET_todos srt db (req\<lparr>query_page := None, query_limit := Some ''1000''\<rparr>)))) =
     min 1000 (length (filter (matches (listFilter req)) db))"
proof -
  let ?r = "req\<lparr>query_page := None, query_limit := Some ''1000''\<rparr>"
  have pg: "parseIntOr (query_page ?r) 1 = 1" and lm: "parseIntOr (query_limit ?r) 10 = 1000"
    by (simp_all add: parseIntOr_def parseInt_1000)
  have "0 \<le> (parseIntOr (query_page ?r) 1 - 1) * parseIntOr (query_limit ?r) 10"
    unfolding pg lm by simp
  from getAllTodos_ok [OF this, of srt db] show ?thesis
    unfolding pg lm GET_todos_def
    by (simp add: reply_def Let_def newestFirst_length [OF assms] min.commute)
qed

text \<open>The statement of the theorem at a concrete store and request.\<close>

theorem limit_1000_not_clamped_witness:
  "newestFirst newestFirstStable \<and>
   status (GET_todos newestFirstStable exampleDb
     (aliceReq\<lparr>query_page := None, query_limit := Some ''1000''\<rparr>)) = 200 \<and>
   limit (payload (GET_todos newestFirstStable exampleDb
     (aliceReq\<lparr>query_page := None, query_limit := Some ''1000''\<rparr>))) = 1000"
  using limit_1000_not_clamped [OF newestFirstStable_valid, of exampleDb aliceReq]
    newestFirstStable_valid
  by blast

text \<open>
  Claim C7 (partial update). Whenever \<open>PUT /todos/:id\<close> returns a task, it is a stored
  task of the caller in which every field absent from the body has its prior value,
  and identifier, owner and creation time are unchanged. For a stored valid task of
  the caller and the body \<open>{completed: true}\<close>, the update succeeds, the stored task
  is replaced by the same task with \<open>completed\<close> true (and a renewed update time when
  the flag changed), and nothing else in the store changes.
\<close>

theorem partial_update_frame:
  "(\<forall>t'. payload (snd (PUT_todos_id L now db req)) = TodoData t' \<longrightarrow>
      (\<exists>t \<in> set db. user t = req_user req \<and> castObjectId L (params_id req) = Some (todo_id t) \<and>
         todo_id t' = todo_id t \<and> user t' = user t \<and> createdAt t' = createdAt t \<and>
         (body_title (body req) = Absent \<longrightarrow> title t' = title t) \<and>
         (body_description (body req) = Absent \<longrightarrow> description t' = description t) \<and>
         (body_completed (body req) = Absent \<longrightarrow> completed t' = completed t) \<and>
         (body_priority (body req) = Absent \<longrightarrow> priority t' = priority t) \<and>
         (body_dueDate (body req) = Absent \<longrightarrow> dueDate t' = dueDate t))) \<and>
   (distinct (map todo_id db) \<and> t \<in> set db \<and> user t = req_user req \<and> validTodo t \<and>
    isMongoId (params_id req) \<and> castObjectId L (params_id req) = Some (todo_id t) \<and>
    body req = emptyBody\<lparr>body_completed := Val True\<rparr> \<longrightarrow>
      PUT_todos_id L now db req =
        (map (\<lambda>x. if x = t
                   then t\<lparr>completed := Some True,
                          updatedAt := (if completed t = Some True then updatedAt t else now)\<rparr>
                   else x) db,
         reply 200 ''Todo updated successfully''
           (TodoData (t\<lparr>completed := Some True,
                        updatedAt := (if completed t = Some True then updatedAt t else now)\<rparr>))))"
proof (intro conjI allI impI)
  fix t'
  assume "payload (snd (PUT_todos_id L now db req)) = TodoData t'"
  from put_ok_shape [OF this] obtain t0 where t0: "t0 \<in> set db" "user t0 = req_user req"
    "castObjectId L (params_id req) = Some (todo_id t0)"
    "t' = touch now t0 (applyFields L (body req) t0)"
    by blast
  show "\<exists>t \<in> set db. user t = req_user req \<and> castObjectId L (params_id req) = Some (todo_id t) \<and>
         todo_id t' = todo_id t \<and> user t' = user t \<and> createdAt t' = createdAt t \<and>
         (body_title (body req) = Absent \<longrightarrow> title t' = title t) \<and>
         (body_description (body req) = Absent \<longrightarrow> description t' = description t) \<and>
         (body_completed (body req) = Absent \<longrightarrow> completed t' = completed t) \<and>
         (body_priority (body req) = Absent \<longrightarrow> priority t' = priority t) \<and>
         (body_dueDate (body req) = Absent \<longrightarrow> dueDate t' = dueDate t)"
    using t0 by (intro bexI [of _ t0]) (simp_all add: applyFields_frame)
next
  assume a: "distinct (map todo_id db) \<and> t \<in> set db \<and> user t = req_user req \<and> validTodo t \<and>
    isMongoId (params_id req) \<and> castObjectId L (params_id req) = Some (todo_id t) \<and>
    body req = emptyBody\<lparr>body_completed := Val True\<rparr>"
  let ?t' = "t\<lparr>completed := Some True,
               updatedAt := (if completed t = Some True then updatedAt t else now)\<rparr>"
  from a have v: "updateTodoValidation L req = []" by (simp add: only_completed_valid)
  from a have f: "List.find (\<lambda>x. todo_id x = todo_id t \<and> user x = req_user req) db = Some t"
    by (simp add: find_owned)
  from a have t': "touch now t (applyFields L (body req) t) = ?t'"
    by (simp add: only_completed_apply touch_completed)
  from a have ok: "validTodo ?t'" by (simp add: validTodo_def)
  from a have r: "replaceFirst (\<lambda>x. todo_id x = todo_id t) ?t' db =
      map (\<lambda>x. if x = t then ?t' else x) db"
    by (simp add: replaceFirst_distinct)
  from a have c: "castObjectId L (params_id req) = Some (todo_id t)" by simp
  show "PUT_todos_id L now db req =
        (map (\<lambda>x. if x = t then ?t' else x) db,
         reply 200 ''Todo updated successfully'' (TodoData ?t'))"
    unfolding PUT_todos_id_def updateTodo_cases
    by (simp only: validated_fields v c f t' ok r option.case if_True if_False not_True_eq_False
          not_False_eq_True simp_thms)
qed

text \<open>The statement of the theorem at a concrete store and request.\<close>

theorem partial_update_frame_witness:
  "distinct (map todo_id exampleDb) \<and> taxes \<in> set exampleDb \<and>
   user taxes = req_user bobCompletes \<and> validTodo taxes \<and> isMongoId (params_id bobCompletes) \<and>
   castObjectId exampleLib (params_id bobCompletes) = Some (todo_id taxes) \<and>
   body bobCompletes = emptyBody\<lparr>body_completed := Val True\<rparr> \<and>
   body_title (body bobCompletes) = Absent \<and>
   PUT_todos_id exampleLib 500 exampleDb bobCompletes =
     (map (\<lambda>x. if x = taxes
                then taxes\<lparr>completed := Some True,
                       updatedAt := (if completed taxes = Some True then updatedAt taxes else 500)\<rparr>
                else x) exampleDb,
      reply 200 ''Todo updated successfully''
        (TodoData (taxes\<lparr>completed := Some True,
           updatedAt := (if completed taxes = Some True then updatedAt taxes else 500)\<rparr>)))"
proof -
  have h: "distinct (map todo_id exampleDb)" "taxes \<in> set exampleDb"
    "user taxes = req_user bobCompletes" "validTodo taxes" "isMongoId (params_id bobCompletes)"
    "castObjectId exampleLib (params_id bobCompletes) = Some (todo_id taxes)"
    "body bobCompletes = emptyBody\<lparr>body_completed := Val True\<rparr>"
    "body_title (body bobCompletes) = Absent"
    by code_simp+
  from partial_update_frame [of exampleLib 500 exampleDb bobCompletes taxes] h
  show ?thesis by blast
qed

text \<open>
  Claim C8 (explicit clear) does not hold of the route: with a date recogniser that
  rejects the empty string, a body whose \<open>dueDate\<close> is \<open>null\<close> fails validation, the
  response is 400 with the error for \<open>dueDate\<close>, and the store is unchanged.
\<close>

theorem null_dueDate_rejected:
  assumes "\<not> isISO8601 L []" and "body_dueDate (body req) = Null"
  shows "PUT_todos_id L now db req =
           (db, reply 400 ''Validation failed'' (Errors (updateTodoValidation L req))) \<and>
         err ''dueDate'' ''Due date must be a valid date'' \<in> set (updateTodoValidation L req)"
proof -
  from assms have "dueDateCheck L (body_dueDate (body req)) =
      [err ''dueDate'' ''Due date must be a valid date'']"
    by (simp add: dueDateCheck_def fieldString_def)
  then have e: "err ''dueDate'' ''Due date must be a valid date'' \<in> set (updateTodoValidation L req)"
    by (simp add: updateTodoValidation_def)
  then have "updateTodoValidation L req \<noteq> []" by auto
  with e show ?thesis by (simp add: PUT_todos_id_def updateTodo_cases)
qed

text \<open>The statement of the theorem at a concrete store and request.\<close>

theorem null_dueDate_rejected_witness:
  "\<not> isISO8601 exampleLib [] \<and> body_dueDate (body aliceClearsDueDate) = Null \<and>
   milk \<in> set exampleDb \<and> dueDate milk = Some (Date 1705708800000) \<and>
   castObjectId exampleLib (params_id aliceClearsDueDate) = Some (todo_id milk) \<and>
   user milk = req_user aliceClearsDueDate \<and>
   PUT_todos_id exampleLib 500 exampleDb aliceClearsDueDate =
     (exampleDb, reply 400 ''Validation failed''
        (Errors (updateTodoValidation exampleLib aliceClearsDueDate)))"
proof -
  have i: "\<not> isISO8601 exampleLib []" by code_simp
  have n: "body_dueDate (body aliceClearsDueDate) = Null" by code_simp
  have m: "milk \<in> set exampleDb" "dueDate milk = Some (Date 1705708800000)"
    "castObjectId exampleLib (params_id aliceClearsDueDate) = Some (todo_id milk)"
    "user milk = req_user aliceClearsDueDate"
    by code_simp+
  from null_dueDate_rejected [OF i n, of 500 exampleDb] i n m show ?thesis by blast
qed

text \<open>
  Claim C9 (create then get). Whenever \<open>POST /todos\<close> answers 201, the task it returns
  is appended to the store, a following \<open>GET /todos/:id\<close> of its identifier by the same
  caller returns that task, and the task has the generated identifier and timestamps,
  the caller as owner, the submitted title, the submitted description (none when the
  request has none), as due date the instant that the submitted string denotes (none
  when the request has none), \<open>completed\<close> false, and the submitted priority or
  \<open>medium\<close> when none was sent. A request with a fresh identifier, a title of 1 to 100
  characters, a description of at most 500 characters, a priority that is absent or
  one of the three levels, and a due date that is absent or is accepted by the
  recogniser and denotes an instant, is answered 201. A request that passes validation
  with a due date that \<open>new Date\<close> cannot parse is answered 500 and stores nothing.
\<close>

theorem create_then_get:
  assumes "castObjectId L oid = Some oid"
  shows "(status (snd (POST_todos L oid now db req)) = 201 \<longrightarrow>
           (\<exists>t. POST_todos L oid now db req =
                   (db @ [t], reply 201 ''Todo created successfully'' (TodoData t)) \<and>
                GET_todos_id L (db @ [t]) (req'\<lparr>params_id := oid, req_user := req_user req\<rparr>) =
                   reply 200 ''Todo retrieved successfully'' (TodoData t) \<and>
                todo_id t = oid \<and> user t = req_user req \<and>
                createdAt t = now \<and> updatedAt t = now \<and>
                (\<exists>s. body_title (body req) = Val s \<and> title t = Some s) \<and>
                (\<forall>d. body_description (body req) = Val d \<longrightarrow> description t = Some d) \<and>
                (body_description (body req) = Absent \<longrightarrow> description t = None) \<and>
                (\<forall>d. body_dueDate (body req) = Val d \<and> d \<noteq> [] \<longrightarrow>
                   (\<exists>ms. parseDate L d = Some ms \<and> dueDate t = Some (Date ms))) \<and>
                (body_dueDate (body req) = Absent \<longrightarrow> dueDate t = None) \<and>
                completed t = Some False \<and>
                (body_priority (body req) = Absent \<longrightarrow> priority t = Some ''medium'') \<and>
                (\<forall>p. body_priority (body req) = Val p \<longrightarrow> priority t = Some p))) \<and>
         (oid \<notin> set (map todo_id db) \<and>
          (\<exists>s. body_title (body req) = Val s \<and> s \<noteq> [] \<and> length s \<le> 100) \<and>
          (\<forall>d. body_description (body req) = Val d \<longrightarrow> length d \<le> 500) \<and>
          (body_priority (body req) = Absent \<or>
           (\<exists>p. body_priority (body req) = Val p \<and> p \<in> set [''low'', ''medium'', ''high''])) \<and>
          (body_dueDate (body req) = Absent \<or>
           (\<exists>d ms. body_dueDate (body req) = Val d \<and> d \<noteq> [] \<and> isISO8601 L d \<and>
                    parseDate L d = Some ms)) \<longrightarrow>
          status (snd (POST_todos L oid now db req)) = 201) \<and>
         (createTodoValidation L req = [] \<and>
          (\<exists>d. body_dueDate (body req) = Val d \<and> d \<noteq> [] \<and> parseDate L d = None) \<longrightarrow>
          POST_todos L oid now db req =
            (db, reply 500 ''Server error while creating todo'' (ErrorDetail ValidationError)))"
proof (intro conjI impI)
  let ?t = "newTodo L oid now req"
  assume "status (snd (POST_todos L oid now db req)) = 201"
  then have v: "createTodoValidation L req = []" and fresh: "oid \<notin> set (map todo_id db)"
    and ok: "validTodo ?t"
    and post: "POST_todos L oid now db req =
                 (db @ [?t], reply 201 ''Todo created successfully'' (TodoData ?t))"
    by (auto simp: POST_cases split: if_splits)
  have f: "List.find (\<lambda>x. todo_id x = oid \<and> user x = req_user req) (db @ [?t]) = Some ?t"
    using fresh by (intro find_append_new) (simp_all add: newTodo_def)
  have get: "GET_todos_id L (db @ [?t]) (req'\<lparr>params_id := oid, req_user := req_user req\<rparr>) =
      reply 200 ''Todo retrieved successfully'' (TodoData ?t)"
    by (simp add: GET_todos_id_def getTodoById_cases assms f)
  have pr: "(body_priority (body req) = Absent \<longrightarrow> priority ?t = Some ''medium'') \<and>
            (\<forall>p. body_priority (body req) = Val p \<longrightarrow> priority ?t = Some p)"
    using create_valid(2) [OF v] by (auto simp: newTodo_def)
  have ti: "\<exists>s. body_title (body req) = Val s \<and> title ?t = Some s"
    using create_valid(1) [OF v] by (auto simp: newTodo_def fieldOption_def)
  have de: "(\<forall>d. body_description (body req) = Val d \<longrightarrow> description ?t = Some d) \<and>
            (body_description (body req) = Absent \<longrightarrow> description ?t = None)"
    by (simp add: newTodo_def fieldOption_def)
  from ok have nd: "dueDate ?t \<noteq> Some InvalidDate" by (simp add: validTodo_def)
  have du: "\<forall>d. body_dueDate (body req) = Val d \<and> d \<noteq> [] \<longrightarrow>
                   (\<exists>ms. parseDate L d = Some ms \<and> dueDate ?t = Some (Date ms))"
  proof (intro allI impI)
    fix d assume d: "body_dueDate (body req) = Val d \<and> d \<noteq> []"
    then have e: "dueDate ?t = Some (newDate L d)"
      by (simp add: newTodo_def dueDateOf_def)
    with nd have "newDate L d \<noteq> InvalidDate" by simp
    then obtain ms where "parseDate L d = Some ms" "newDate L d = Date ms"
      by (auto simp: newDate_def split: option.splits)
    with e show "\<exists>ms. parseDate L d = Some ms \<and> dueDate ?t = Some (Date ms)" by simp
  qed
  have du0: "body_dueDate (body req) = Absent \<longrightarrow> dueDate ?t = None"
    by (simp add: newTodo_def dueDateOf_def)
  have rest: "todo_id ?t = oid \<and> user ?t = req_user req \<and>
                createdAt ?t = now \<and> updatedAt ?t = now \<and> completed ?t = Some False"
    by (simp add: newTodo_def)
  from post get pr ti de du du0 rest
  show "\<exists>t. POST_todos L oid now db req =
                   (db @ [t], reply 201 ''Todo created successfully'' (TodoData t)) \<and>
                GET_todos_id L (db @ [t]) (req'\<lparr>params_id := oid, req_user := req_user req\<rparr>) =
                   reply 200 ''Todo retrieved successfully'' (TodoData t) \<and>
                todo_id t = oid \<and> user t = req_user req \<and>
                createdAt t = now \<and> updatedAt t = now \<and>
                (\<exists>s. body_title (body req) = Val s \<and> title t = Some s) \<and>
                (\<forall>d. body_description (body req) = Val d \<longrightarrow> description t = Some d) \<and>
                (body_description (body req) = Absent \<longrightarrow> description t = None) \<and>
                (\<forall>d. body_dueDate (body req) = Val d \<and> d \<noteq> [] \<longrightarrow>
                   (\<exists>ms. parseDate L d = Some ms \<and> dueDate t = Some (Date ms))) \<and>
                (body_dueDate (body req) = Absent \<longrightarrow> dueDate t = None) \<and>
                completed t = Some False \<and>
                (body_priority (body req) = Absent \<longrightarrow> priority t = Some ''medium'') \<and>
                (\<forall>p. body_priority (body req) = Val p \<longrightarrow> priority t = Some p)"
    by (intro exI [of _ ?t]) blast
next
  assume a: "oid \<notin> set (map todo_id db) \<and>
          (\<exists>s. body_title (body req) = Val s \<and> s \<noteq> [] \<and> length s \<le> 100) \<and>
          (\<forall>d. body_description (body req) = Val d \<longrightarrow> length d \<le> 500) \<and>
          (body_priority (body req) = Absent \<or>
           (\<exists>p. body_priority (body req) = Val p \<and> p \<in> set [''low'', ''medium'', ''high''])) \<and>
          (body_dueDate (body req) = Absent \<or>
           (\<exists>d ms. body_dueDate (body req) = Val d \<and> d \<noteq> [] \<and> isISO8601 L d \<and>
                    parseDate L d = Some ms))"
  then have v: "createTodoValidation L req = []"
    by (auto simp: createTodoValidation_def priorityCheck_def dueDateCheck_def fieldString_def)
  from a have d: "case description (newTodo L oid now req) of None \<Rightarrow> True
                  | Some d \<Rightarrow> length d \<le> 500"
    by (cases "body_description (body req)") (simp_all add: newTodo_def fieldOption_def)
  from a have t: "case title (newTodo L oid now req) of None \<Rightarrow> False
                  | Some s \<Rightarrow> s \<noteq> [] \<and> length s \<le> 100"
    by (auto simp: newTodo_def fieldOption_def)
  from a have p: "case priority (newTodo L oid now req) of None \<Rightarrow> True
                  | Some p \<Rightarrow> p \<in> set [''low'', ''medium'', ''high'']"
    by (auto simp: newTodo_def)
  from a have e: "dueDate (newTodo L oid now req) \<noteq> Some InvalidDate"
    by (auto simp: newTodo_def dueDateOf_def newDate_def)
  from t d p e have "validTodo (newTodo L oid now req)"
    unfolding validTodo_def by blast
  with v a show "status (snd (POST_todos L oid now db req)) = 201"
    by (simp add: POST_cases)
next
  assume a: "createTodoValidation L req = [] \<and>
          (\<exists>d. body_dueDate (body req) = Val d \<and> d \<noteq> [] \<and> parseDate L d = None)"
  then have "dueDate (newTodo L oid now req) = Some InvalidDate"
    by (auto simp: newTodo_def dueDateOf_def newDate_def)
  then have "\<not> validTodo (newTodo L oid now req)"
    by (simp add: validTodo_def)
  with a show "POST_todos L oid now db req =
            (db, reply 500 ''Server error while creating todo'' (ErrorDetail ValidationError))"
    by (simp add: POST_cases)
qed

text \<open>
  The statement of the theorem at a request that submits a title, a description and a
  due date and leaves out the priority.
\<close>

theorem create_then_get_witness:
  "castObjectId exampleLib ''64b7f3a2c1d2e3f4a5b6c7d4'' = Some ''64b7f3a2c1d2e3f4a5b6c7d4'' \<and>
   status (snd (POST_todos exampleLib ''64b7f3a2c1d2e3f4a5b6c7d4'' 400 exampleDb aliceCreates)) = 201 \<and>
   POST_todos exampleLib ''64b7f3a2c1d2e3f4a5b6c7d4'' 400 exampleDb aliceCreates =
     (exampleDb @ [plants], reply 201 ''Todo created successfully'' (TodoData plants)) \<and>
   body_title (body aliceCreates) = Val ''water plants'' \<and>
   body_description (body aliceCreates) = Val ''all of them'' \<and>
   body_dueDate (body aliceCreates) = Val ''2024-12-31'' \<and>
   parseDate exampleLib ''2024-12-31'' = Some 1735603200000 \<and>
   body_priority (body aliceCreates) = Absent \<and>
   (\<exists>t. POST_todos exampleLib ''64b7f3a2c1d2e3f4a5b6c7d4'' 400 exampleDb aliceCreates =
          (exampleDb @ [t], reply 201 ''Todo created successfully'' (TodoData t)) \<and>
        GET_todos_id exampleLib (exampleDb @ [t])
          (aliceReq\<lparr>params_id := ''64b7f3a2c1d2e3f4a5b6c7d4'', req_user := req_user aliceCreates\<rparr>) =
          reply 200 ''Todo retrieved successfully'' (TodoData t) \<and>
        title t = Some ''water plants'' \<and> description t = Some ''all of them'' \<and>
        dueDate t = Some (Date 1735603200000) \<and>
        completed t = Some False \<and> priority t = Some ''medium'')"
proof -
  have c: "castObjectId exampleLib ''64b7f3a2c1d2e3f4a5b6c7d4'' = Some ''64b7f3a2c1d2e3f4a5b6c7d4''"
    by code_simp
  have s: "status (snd (POST_todos exampleLib ''64b7f3a2c1d2e3f4a5b6c7d4'' 400 exampleDb aliceCreates)) = 201"
    by code_simp
  have p: "POST_todos exampleLib ''64b7f3a2c1d2e3f4a5b6c7d4'' 400 exampleDb aliceCreates =
     (exampleDb @ [plants], reply 201 ''Todo created successfully'' (TodoData plants))"
    by code_simp
  have b: "body_title (body aliceCreates) = Val ''water plants''"
    "body_description (body aliceCreates) = Val ''all of them''"
    "body_dueDate (body aliceCreates) = Val ''2024-12-31''"
    "parseDate exampleLib ''2024-12-31'' = Some 1735603200000"
    "body_priority (body aliceCreates) = Absent"
    by code_simp+
  note E = mp [OF conjunct1 [OF create_then_get [OF c, of 400 exampleDb aliceCreates aliceReq]] s]
  from E obtain t where t:
    "POST_todos exampleLib ''64b7f3a2c1d2e3f4a5b6c7d4'' 400 exampleDb aliceCreates =
          (exampleDb @ [t], reply 201 ''Todo created successfully'' (TodoData t))"
    "GET_todos_id exampleLib (exampleDb @ [t])
          (aliceReq\<lparr>params_id := ''64b7f3a2c1d2e3f4a5b6c7d4'', req_user := req_user aliceCreates\<rparr>) =
          reply 200 ''Todo retrieved successfully'' (TodoData t)"
    "\<exists>s. body_title (body aliceCreates) = Val s \<and> title t = Some s"
    "\<forall>d. body_description (body aliceCreates) = Val d \<longrightarrow> description t = Some d"
    "\<forall>d. body_dueDate (body aliceCreates) = Val d \<and> d \<noteq> [] \<longrightarrow>
          (\<exists>ms. parseDate exampleLib d = Some ms \<and> dueDate t = Some (Date ms))"
    "completed t = Some False"
    "body_priority (body aliceCreates) = Absent \<longrightarrow> priority t = Some ''medium''"
    by blast
  from t(3) b(1) have ti: "title t = Some ''water plants''" by auto
  from t(4) b(2) have de: "description t = Some ''all of them''" by blast
  have "''2024-12-31'' \<noteq> ([] :: string)" by simp
  with t(5) b(3) have "\<exists>ms. parseDate exampleLib ''2024-12-31'' = Some ms \<and>
      dueDate t = Some (Date ms)"
    by blast
  with b(4) have du: "dueDate t = Some (Date 1735603200000)" by auto
  from t(7) b(5) have pr: "priority t = Some ''medium''" by blast
  from t(1,2) ti de du t(6) pr
  have "\<exists>t. POST_todos exampleLib ''64b7f3a2c1d2e3f4a5b6c7d4'' 400 exampleDb aliceCreates =
          (exampleDb @ [t], reply 201 ''Todo created successfully'' (TodoData t)) \<and>
        GET_todos_id exampleLib (exampleDb @ [t])
          (aliceReq\<lparr>params_id := ''64b7f3a2c1d2e3f4a5b6c7d4'', req_user := req_user aliceCreates\<rparr>) =
          reply 200 ''Todo retrieved successfully'' (TodoData t) \<and>
        title t = Some ''water plants'' \<and> description t = Some ''all of them'' \<and>
        dueDate t = Some (Date 1735603200000) \<and>
        completed t = Some False \<and> priority t = Some ''medium''"
    by (intro exI [of _ t] conjI)
  with c s p b show ?thesis by (intro conjI)
qed

text \<open>
  Claim C10 (malformed identifier). When the route parameter is not a MongoId, the
  validation of the route records an error, but \<open>GET /todos/:id\<close> and
  \<open>DELETE /todos/:id\<close> give the response of their controller on the store lookup all the
  same, never status 400; when the store cannot cast the identifier, both answer the
  500 envelope and the store is unchanged.
\<close>

theorem malformed_id_not_rejected:
  assumes "\<not> isMongoId (params_id req)"
  shows "validationErrors (validated todoIdValidation req) \<noteq> [] \<and>
         GET_todos_id L db req = getTodoById L db req \<and>
         DELETE_todos_id L db req = deleteTodo L db req \<and>
         status (GET_todos_id L db req) \<noteq> 400 \<and>
         status (snd (DELETE_todos_id L db req)) \<noteq> 400 \<and>
         (castObjectId L (params_id req) = None \<longrightarrow>
            GET_todos_id L db req =
              reply 500 ''Server error while fetching todo'' (ErrorDetail CastError) \<and>
            DELETE_todos_id L db req =
              (db, reply 500 ''Server error while deleting todo'' (ErrorDetail CastError)))"
  using assms
  by (auto simp: GET_todos_id_def DELETE_todos_id_def getTodoById_cases deleteTodo_cases
        todoIdValidation_def idCheck_def split: option.splits)

text \<open>The statement of the theorem at a concrete store and request.\<close>

theorem malformed_id_not_rejected_witness:
  "\<not> isMongoId (params_id (aliceReq\<lparr>params_id := ''abc''\<rparr>)) \<and>
   castObjectId exampleLib (params_id (aliceReq\<lparr>params_id := ''abc''\<rparr>)) = None \<and>
   GET_todos_id exampleLib exampleDb (aliceReq\<lparr>params_id := ''abc''\<rparr>) =
     reply 500 ''Server error while fetching todo'' (ErrorDetail CastError) \<and>
   DELETE_todos_id exampleLib exampleDb (aliceReq\<lparr>params_id := ''abc''\<rparr>) =
     (exampleDb, reply 500 ''Server error while deleting todo'' (ErrorDetail CastError))"
proof -
  have m: "\<not> isMongoId (params_id (aliceReq\<lparr>params_id := ''abc''\<rparr>))" by code_simp
  have c: "castObjectId exampleLib (params_id (aliceReq\<lparr>params_id := ''abc''\<rparr>)) = None"
    by code_simp
  from malformed_id_not_rejected [OF m, of exampleLib exampleDb] m c show ?thesis by blast
qed

end
